theory Spec2Isabelle
  imports Complex_Main "HOL-Library.Sublist"
begin

section \<open>The document perturbation engine of retrieval-exploration\<close>

text \<open>
  A shallow embedding of \<^verbatim>\<open>src/retrieval_exploration/perturbations.py\<close>: the class
  \<^verbatim>\<open>Perturber\<close>, its constructor, its six perturbation methods, the selection routine
  \<^verbatim>\<open>_select_docs\<close> and \<^verbatim>\<open>__call__\<close>.

  Python strings are \<^typ>\<open>string\<close>, Python lists are HOL lists, \<^verbatim>\<open>Optional[T]\<close> is
  \<^typ>\<open>'a option\<close>. Every \<^verbatim>\<open>raise\<close> is a value \<open>Inl e\<close>; every
  \<^verbatim>\<open>warnings.warn\<close> appends to a log kept in the state, next to the state of the private
  random source \<^verbatim>\<open>self._rng\<close>.

  \<^verbatim>\<open>perturbed_frac\<close> is a Python float. It is modelled by a rational number and the product
  \<^verbatim>\<open>perturbed_frac * num_docs\<close> is taken exactly: the rounding of the floating-point
  product is not part of this model.
\<close>

subsection \<open>Strings\<close>

text \<open>\<^verbatim>\<open>sep.join(xs)\<close>.\<close>

fun str_join :: "string \<Rightarrow> string list \<Rightarrow> string" where
  "str_join j [] = []"
| "str_join j [x] = x"
| "str_join j (x # y # ys) = x @ j @ str_join j (y # ys)"

text \<open>\<^verbatim>\<open>f" {self._doc_sep_token} ".join(docs)\<close>: the separator padded by one space on each side.\<close>

definition join_docs :: "string \<Rightarrow> string list \<Rightarrow> string" where
  "join_docs sep docs = str_join ('' '' @ sep @ '' '') docs"

text \<open>
  The characters \<^verbatim>\<open>str.isspace\<close> accepts among the code points below 256: tab, line feed,
  vertical tab, form feed, carriage return, the four separators 0x1C to 0x1F, space, 0x85 and 0xA0.
\<close>

definition whitespace :: "char list" where
  "whitespace = [CHR 0x09, CHR 0x0A, CHR 0x0B, CHR 0x0C, CHR 0x0D, CHR 0x1C, CHR 0x1D, CHR 0x1E,
     CHR 0x1F, CHR 0x20, CHR 0x85, CHR 0xA0]"

definition is_space :: "char \<Rightarrow> bool" where
  "is_space c = (c \<in> set whitespace)"

text \<open>\<^verbatim>\<open>s.strip()\<close>.\<close>

definition strip :: "string \<Rightarrow> string" where
  "strip s = rev (dropWhile is_space (rev (dropWhile is_space s)))"

text \<open>Truthiness of an \<^verbatim>\<open>Optional[str]\<close>: \<^verbatim>\<open>None\<close> and the empty string are falsey.\<close>

definition truthy :: "string option \<Rightarrow> bool" where
  "truthy s = (case s of None \<Rightarrow> False | Some x \<Rightarrow> x \<noteq> [])"

subsection \<open>Lists\<close>

text \<open>\<^verbatim>\<open>xs.index(x)\<close>: the position of the first element equal to \<open>x\<close>; \<open>None\<close> stands for
  the \<^verbatim>\<open>ValueError\<close> Python raises when there is none.\<close>

fun index_of :: "'a list \<Rightarrow> 'a \<Rightarrow> nat option" where
  "index_of [] x = None"
| "index_of (y # ys) x = (if y = x then Some 0 else map_option Suc (index_of ys x))"

text \<open>\<^verbatim>\<open>xs[i]\<close> for a non-negative index; \<open>None\<close> stands for the \<^verbatim>\<open>IndexError\<close>.\<close>

definition nth_opt :: "'a list \<Rightarrow> nat \<Rightarrow> 'a option" where
  "nth_opt xs i = (if i < length xs then Some (xs ! i) else None)"

text \<open>\<^verbatim>\<open>list(dict.fromkeys(xs))\<close>: duplicates removed, the first occurrence kept, order kept.\<close>

fun fromkeys :: "'a list \<Rightarrow> 'a list" where
  "fromkeys [] = []"
| "fromkeys (x # xs) = x # filter (\<lambda>y. y \<noteq> x) (fromkeys xs)"

text \<open>\<^verbatim>\<open>itertools.zip_longest(xs, ys)\<close>: the shorter side is padded with \<^verbatim>\<open>None\<close>.\<close>

fun zip_longest :: "'a list \<Rightarrow> 'b list \<Rightarrow> ('a option \<times> 'b option) list" where
  "zip_longest [] [] = []"
| "zip_longest (x # xs) [] = (Some x, None) # zip_longest xs []"
| "zip_longest [] (y # ys) = (None, Some y) # zip_longest [] ys"
| "zip_longest (x # xs) (y # ys) = (Some x, Some y) # zip_longest xs ys"

subsection \<open>Errors, warnings and the mutable state\<close>

text \<open>
  One constructor per place where the source, or a library call it makes, raises:
  \<^item> \<open>UnexpectedPerturbation\<close>: the \<^verbatim>\<open>ValueError\<close> of \<^verbatim>\<open>__init__\<close>;
  \<^item> \<open>TargetsLengthMismatch\<close>: the \<^verbatim>\<open>ValueError\<close> of \<^verbatim>\<open>__call__\<close>;
  \<^item> \<open>MissingQueryOrTarget\<close> and \<open>NotEnoughDocuments\<close>: the two \<^verbatim>\<open>ValueError\<close>s of
    \<^verbatim>\<open>_select_docs\<close>;
  \<^item> \<open>SampleOutOfRange\<close>: the \<^verbatim>\<open>ValueError\<close> of \<^verbatim>\<open>random.Random.sample\<close> for a
    count that is negative or larger than the population;
  \<^item> \<open>NotInList\<close>: the \<^verbatim>\<open>ValueError\<close> of \<^verbatim>\<open>list.index\<close>;
  \<^item> \<open>IndexError\<close>: an index past the end of a list;
  \<^item> \<open>TopkOutOfRange\<close>: the \<^verbatim>\<open>RuntimeError\<close> of \<^verbatim>\<open>torch.topk\<close> for a negative count;
  \<^item> \<open>AttributeError\<close>: a method called on a component that is \<^verbatim>\<open>None\<close>;
  \<^item> \<open>TypeError\<close>: a call with arguments the callee does not take.
\<close>

datatype error =
    UnexpectedPerturbation
  | TargetsLengthMismatch
  | MissingQueryOrTarget
  | NotEnoughDocuments
  | SampleOutOfRange
  | NotInList
  | IndexError
  | TopkOutOfRange
  | AttributeError
  | TypeError

datatype warning =
    FalseyPerturbedFrac
  | DocumentsIgnored
  | TargetIgnored

text \<open>The state a call may change: the random source \<^verbatim>\<open>self._rng\<close> and the warnings emitted so far.\<close>

record 'r pstate =
  rng :: 'r
  warned :: "warning list"

definition warn :: "warning \<Rightarrow> 'r pstate \<Rightarrow> 'r pstate" where
  "warn w st = st\<lparr>warned := warned st @ [w]\<rparr>"

text \<open>A computation that reads and updates the state and either raises or returns.\<close>

type_synonym ('a, 'r) run = "'r pstate \<Rightarrow> (error + 'a) \<times> 'r pstate"

definition and_then :: "('a, 'r) run \<Rightarrow> ('a \<Rightarrow> ('b, 'r) run) \<Rightarrow> ('b, 'r) run" where
  "and_then m f st = (case m st of (Inl e, st') \<Rightarrow> (Inl e, st') | (Inr x, st') \<Rightarrow> f x st')"

definition lift_result :: "error + 'a \<Rightarrow> ('a, 'r) run" where
  "lift_result r st = (r, st)"

subsection \<open>What the class is given from outside\<close>

text \<open>
  The module calls code that is not in the file: the helpers of \<^verbatim>\<open>retrieval_exploration.common.util\<close>,
  the sentence splitter, the translation model, the embedding model with \<^verbatim>\<open>torch.topk\<close>, the
  algorithm of \<^verbatim>\<open>random.Random\<close> and the attributes every Python object inherits. They are
  parameters of the model; \<open>'r\<close> is the type of the random source's state and \<open>'s\<close> the type of
  a score tensor.
  \<^item> \<open>split_docs text sep\<close> is \<^verbatim>\<open>util.split_docs(text, doc_sep_token=sep)\<close>;
  \<^item> \<open>get_num_docs text sep\<close> is \<^verbatim>\<open>util.get_num_docs(text, doc_sep_token=sep)\<close>;
  \<^item> \<open>unflatten xs lengths\<close> is \<^verbatim>\<open>util.unflatten(xs, lengths=lengths)\<close>;
  \<^item> \<open>sent_tokenize\<close> is \<^verbatim>\<open>nltk.sent_tokenize\<close> and \<open>augment\<close> is
    \<^verbatim>\<open>BackTranslationAug.augment\<close>;
  \<^item> \<open>seeded n\<close> is the state of \<^verbatim>\<open>random.Random(n)\<close> and \<open>unseeded\<close> the state of
    \<^verbatim>\<open>random.Random(None)\<close>, which Python draws from the operating system;
  \<^item> \<open>sample_docs r xs k\<close> is \<^verbatim>\<open>sample(xs, k)\<close> on a list of strings,
    \<open>sample_range r n k\<close> is \<^verbatim>\<open>sample(range(n), k)\<close> and \<open>shuffle r xs\<close> is
    \<^verbatim>\<open>shuffle(xs)\<close>, each with the state that follows;
  \<^item> \<open>scores_target t docs\<close> is the dot score of the embedding of \<open>t\<close> against the embeddings
    of \<open>docs\<close>, \<open>scores_query qs docs\<close> the mean over \<open>qs\<close> of these scores, and
    \<open>topk s k largest\<close> the indices \<^verbatim>\<open>torch.topk(s, k=k, largest=largest, sorted=True)\<close>
    returns;
  \<^item> \<open>object_attr name\<close> says whether \<open>name\<close> is an attribute that the instance inherits
    from beyond the class body and whose value is not \<^verbatim>\<open>None\<close>.
\<close>

record ('r, 's) env =
  split_docs :: "string \<Rightarrow> string \<Rightarrow> string list"
  get_num_docs :: "string \<Rightarrow> string \<Rightarrow> nat"
  unflatten :: "string list \<Rightarrow> nat list \<Rightarrow> string list list"
  sent_tokenize :: "string \<Rightarrow> string list"
  augment :: "string list \<Rightarrow> string list"
  seeded :: "int \<Rightarrow> 'r"
  unseeded :: "'r"
  sample_docs :: "'r \<Rightarrow> string list \<Rightarrow> nat \<Rightarrow> string list \<times> 'r"
  sample_range :: "'r \<Rightarrow> nat \<Rightarrow> nat \<Rightarrow> nat list \<times> 'r"
  shuffle :: "'r \<Rightarrow> string list \<Rightarrow> string list \<times> 'r"
  scores_target :: "string \<Rightarrow> string list \<Rightarrow> 's"
  scores_query :: "string list \<Rightarrow> string list \<Rightarrow> 's"
  topk :: "'s \<Rightarrow> nat \<Rightarrow> bool \<Rightarrow> nat list"
  object_attr :: "string \<Rightarrow> bool"

subsection \<open>The Perturber object and its constructor\<close>

text \<open>
  The fields \<^verbatim>\<open>__init__\<close> sets. \<open>aug_loaded\<close> and \<open>embedder_loaded\<close> say whether
  \<^verbatim>\<open>self._aug\<close> and \<^verbatim>\<open>self._embedder\<close> are objects rather than \<^verbatim>\<open>None\<close>.
\<close>

record perturber =
  perturbation :: string
  doc_sep_token :: string
  strategy :: string
  aug_loaded :: bool
  embedder_loaded :: bool

text \<open>The methods the class body defines, in the order of the file.\<close>

definition class_methods :: "string list" where
  "class_methods = [''__init__'', ''__call__'', ''backtranslation'', ''sorting'', ''duplication'',
     ''addition'', ''deletion'', ''replacement'', ''_select_docs'']"

text \<open>
  \<^verbatim>\<open>getattr(self, self._perturbation, None) is not None\<close>, at the point where
  \<^verbatim>\<open>__init__\<close> evaluates it: the instance holds the one attribute \<^verbatim>\<open>_perturbation\<close>
  (a string, assigned on the line before), the class body holds the nine methods, and any other
  name is looked up among the inherited attributes.
\<close>

definition perturbation_func_found :: "('r, 's) env \<Rightarrow> string \<Rightarrow> bool" where
  "perturbation_func_found env name =
     (if name = ''_perturbation'' then True
      else if name \<in> set class_methods then True
      else object_attr env name)"

text \<open>\<^verbatim>\<open>Perturber.__init__\<close>: the object and the first state, or the error.\<close>

definition Perturber_init ::
  "('r, 's) env \<Rightarrow> string \<Rightarrow> string \<Rightarrow> string \<Rightarrow> int option \<Rightarrow> error + (perturber \<times> 'r pstate)" where
  "Perturber_init env perturbation_arg doc_sep strategy_arg seed =
     (if \<not> perturbation_func_found env perturbation_arg then Inl UnexpectedPerturbation
      else Inr (\<lparr>perturbation = perturbation_arg,
                 doc_sep_token = doc_sep,
                 strategy = strategy_arg,
                 aug_loaded = (perturbation_arg = ''backtranslation''),
                 embedder_loaded = (strategy_arg \<noteq> ''random'')\<rparr>,
                \<lparr>rng = (case seed of None \<Rightarrow> unseeded env | Some n \<Rightarrow> seeded env n),
                 warned = []\<rparr>))"

subsection \<open>Selecting documents\<close>

text \<open>\<^verbatim>\<open>self._rng.sample(population, k)\<close> on a list of documents, with the range check
  \<^verbatim>\<open>random.sample\<close> makes first.\<close>

definition rng_sample_docs :: "('r, 's) env \<Rightarrow> string list \<Rightarrow> int \<Rightarrow> (string list, 'r) run" where
  "rng_sample_docs env population k st =
     (if k < 0 \<or> int (length population) < k then (Inl SampleOutOfRange, st)
      else (case sample_docs env (rng st) population (nat k) of
              (xs, r') \<Rightarrow> (Inr xs, st\<lparr>rng := r'\<rparr>)))"

text \<open>\<^verbatim>\<open>self._rng.sample(range(n), k)\<close>.\<close>

definition rng_sample_range :: "('r, 's) env \<Rightarrow> nat \<Rightarrow> int \<Rightarrow> (nat list, 'r) run" where
  "rng_sample_range env n k st =
     (if k < 0 \<or> int n < k then (Inl SampleOutOfRange, st)
      else (case sample_range env (rng st) n (nat k) of
              (xs, r') \<Rightarrow> (Inr xs, st\<lparr>rng := r'\<rparr>)))"

text \<open>\<^verbatim>\<open>[documents[i] for i in indices]\<close>.\<close>

definition pick :: "'a list \<Rightarrow> nat list \<Rightarrow> error + 'a list" where
  "pick xs idx = (case those (map (nth_opt xs) idx) of None \<Rightarrow> Inl IndexError | Some ys \<Rightarrow> Inr ys)"

text \<open>\<^verbatim>\<open>[input_docs.index(doc) for doc in docs]\<close>.\<close>

definition index_all :: "'a list \<Rightarrow> 'a list \<Rightarrow> error + nat list" where
  "index_all input_docs docs =
     (case those (map (index_of input_docs) docs) of None \<Rightarrow> Inl NotInList | Some is \<Rightarrow> Inr is)"

text \<open>
  The candidates of \<^verbatim>\<open>_select_docs\<close>: every string of the pool split into documents, and,
  when a query is given (\<^verbatim>\<open>query is not None\<close>), the documents of the query removed.
\<close>

definition candidate_docs :: "('r, 's) env \<Rightarrow> perturber \<Rightarrow> string list \<Rightarrow> string option \<Rightarrow> string list" where
  "candidate_docs env P documents query =
     (let all_docs = concat (map (\<lambda>example. split_docs env example (doc_sep_token P)) documents)
      in case query of
           None \<Rightarrow> all_docs
         | Some q \<Rightarrow> filter (\<lambda>doc. doc \<notin> set (split_docs env q (doc_sep_token P))) all_docs)"

text \<open>
  \<^verbatim>\<open>Perturber._select_docs(documents, k=k, query=query, target=target, largest=largest)\<close>.
  The checks come in the order of the source: the argument check, the warning, the candidates,
  the size check, and then the random sample or the ranking. The ranking compares with the
  target when it is truthy and with the documents of the query otherwise; the argument check
  has then left only calls with a non-empty query, so the empty list written for a missing
  query is never ranked against.
\<close>

definition select_docs ::
  "('r, 's) env \<Rightarrow> perturber \<Rightarrow> string list \<Rightarrow> int \<Rightarrow> string option \<Rightarrow> string option \<Rightarrow> bool
     \<Rightarrow> (string list, 'r) run" where
  "select_docs env P documents k query target largest st =
     (if strategy P \<noteq> ''random'' \<and> \<not> truthy query \<and> \<not> truthy target
      then (Inl MissingQueryOrTarget, st)
      else
        let st1 = (if strategy P = ''random'' \<and> target \<noteq> None then warn TargetIgnored st else st);
            candidates = candidate_docs env P documents query
        in if int (length candidates) < k then (Inl NotEnoughDocuments, st1)
           else if strategy P = ''random'' then rng_sample_docs env candidates k st1
           else if \<not> embedder_loaded P then (Inl AttributeError, st1)
           else
             let scores =
                   (case target of
                      Some t \<Rightarrow>
                        if t \<noteq> [] then scores_target env t candidates
                        else scores_query env
                               (case query of None \<Rightarrow> [] | Some q \<Rightarrow> split_docs env q (doc_sep_token P))
                               candidates
                    | None \<Rightarrow>
                        scores_query env
                          (case query of None \<Rightarrow> [] | Some q \<Rightarrow> split_docs env q (doc_sep_token P))
                          candidates)
             in if k < 0 then (Inl TopkOutOfRange, st1)
                else (pick candidates (topk env scores (nat k) largest), st1))"

subsection \<open>The six perturbations\<close>

text \<open>
  \<^verbatim>\<open>k = math.ceil(perturbed_frac * num_docs)\<close>, with the product taken exactly. Python
  rounds the product to a double before the ceiling, so the two differ where the rounding crosses
  an integer: for \<^verbatim>\<open>0.28 * 25\<close> Python computes 7.000000000000001 and \<open>k = 8\<close>, where
  the exact product of the decimals gives 7. They agree wherever the product is a double itself,
  as for the fractions \<open>1/2\<close> and \<open>1\<close> of every concrete run below, and the theorems that
  hold for every \<open>perturbed_frac\<close> hold for every \<open>k\<close> that Python can compute.
\<close>

definition num_to_perturb :: "rat \<Rightarrow> nat \<Rightarrow> int" where
  "num_to_perturb perturbed_frac num_docs = \<lceil>perturbed_frac * of_nat num_docs\<rceil>"

text \<open>\<^verbatim>\<open>Perturber.deletion\<close>. \<open>deletion_indices\<close> is the list \<^verbatim>\<open>to_delete\<close>.\<close>

definition deletion_indices ::
  "('r, 's) env \<Rightarrow> perturber \<Rightarrow> string \<Rightarrow> rat \<Rightarrow> string option \<Rightarrow> (nat list, 'r) run" where
  "deletion_indices env P example perturbed_frac target =
     (let input_docs = split_docs env example (doc_sep_token P);
          num_docs = get_num_docs env example (doc_sep_token P);
          k = num_to_perturb perturbed_frac num_docs
      in if strategy P = ''random'' then rng_sample_range env num_docs k
         else and_then (select_docs env P [example] k None target (strategy P = ''worst-case''))
                (\<lambda>sampled_docs. lift_result (index_all input_docs sampled_docs)))"

definition deletion ::
  "('r, 's) env \<Rightarrow> perturber \<Rightarrow> string \<Rightarrow> rat \<Rightarrow> string option \<Rightarrow> string list option
     \<Rightarrow> (string, 'r) run" where
  "deletion env P example perturbed_frac target documents =
     (let input_docs = split_docs env example (doc_sep_token P);
          num_docs = get_num_docs env example (doc_sep_token P);
          k = num_to_perturb perturbed_frac num_docs
      in if k = int num_docs then lift_result (Inr [])
         else and_then (deletion_indices env P example perturbed_frac target)
                (\<lambda>to_delete. lift_result (Inr (join_docs (doc_sep_token P)
                   (map snd (filter (\<lambda>(j, doc). j \<notin> set to_delete) (enumerate 0 input_docs)))))))"

text \<open>\<^verbatim>\<open>Perturber.duplication\<close>.\<close>

definition duplication ::
  "('r, 's) env \<Rightarrow> perturber \<Rightarrow> string \<Rightarrow> rat \<Rightarrow> string option \<Rightarrow> string list option
     \<Rightarrow> (string, 'r) run" where
  "duplication env P example perturbed_frac target documents =
     (let input_docs = split_docs env example (doc_sep_token P);
          num_docs = get_num_docs env example (doc_sep_token P);
          k = num_to_perturb perturbed_frac num_docs
      in and_then
           (if k = int num_docs then lift_result (Inr input_docs)
            else if strategy P = ''random'' then rng_sample_docs env input_docs k
            else select_docs env P [example] k None target (strategy P = ''best-case''))
           (\<lambda>repeaters. lift_result (Inr (join_docs (doc_sep_token P) (input_docs @ repeaters)))))"

text \<open>\<^verbatim>\<open>Perturber.addition\<close>. The pool \<^verbatim>\<open>documents\<close> is a required argument here.\<close>

definition addition ::
  "('r, 's) env \<Rightarrow> perturber \<Rightarrow> string \<Rightarrow> rat \<Rightarrow> string option \<Rightarrow> string list
     \<Rightarrow> (string, 'r) run" where
  "addition env P example perturbed_frac target documents =
     (let input_docs = split_docs env example (doc_sep_token P);
          num_docs = get_num_docs env example (doc_sep_token P);
          k = num_to_perturb perturbed_frac num_docs
      in and_then
           (if strategy P = ''random'' then select_docs env P documents k (Some example) None True
            else select_docs env P documents k (Some example) target (strategy P = ''best-case''))
           (\<lambda>sampled_docs. lift_result (Inr (join_docs (doc_sep_token P) (input_docs @ sampled_docs)))))"

text \<open>\<^verbatim>\<open>Perturber.sorting\<close>; \<^verbatim>\<open>perturbed_frac\<close> is not read.\<close>

definition sorting ::
  "('r, 's) env \<Rightarrow> perturber \<Rightarrow> string \<Rightarrow> rat option \<Rightarrow> string option \<Rightarrow> string list option
     \<Rightarrow> (string, 'r) run" where
  "sorting env P example perturbed_frac target documents =
     (let input_docs = split_docs env example (doc_sep_token P)
      in and_then
           (if strategy P = ''random''
            then (\<lambda>st. case shuffle env (rng st) input_docs of
                         (shuffled, r') \<Rightarrow> (Inr shuffled, st\<lparr>rng := r'\<rparr>))
            else select_docs env P [example] (int (length input_docs)) None target
                   (strategy P = ''best-case''))
           (\<lambda>docs. lift_result (Inr (join_docs (doc_sep_token P) docs))))"

text \<open>
  \<^verbatim>\<open>Perturber.replacement\<close>. \<open>replacement_indices\<close> is the pair of \<^verbatim>\<open>sampled_docs\<close> and
  \<^verbatim>\<open>replace_indices\<close>; \<open>replace_loop\<close> is the loop
  \<^verbatim>\<open>for i, doc in zip(replace_indices, sampled_docs): input_docs[i] = doc.strip()\<close>.
\<close>

fun replace_loop :: "(nat \<times> string) list \<Rightarrow> string list \<Rightarrow> error + string list" where
  "replace_loop [] input_docs = Inr input_docs"
| "replace_loop ((i, doc) # rest) input_docs =
     (if i < length input_docs then replace_loop rest (input_docs[i := strip doc])
      else Inl IndexError)"

definition replacement_indices ::
  "('r, 's) env \<Rightarrow> perturber \<Rightarrow> string \<Rightarrow> rat \<Rightarrow> string option \<Rightarrow> string list
     \<Rightarrow> (string list \<times> nat list, 'r) run" where
  "replacement_indices env P example perturbed_frac target documents =
     (let input_docs = split_docs env example (doc_sep_token P);
          num_docs = get_num_docs env example (doc_sep_token P);
          k = num_to_perturb perturbed_frac num_docs
      in if strategy P = ''random''
         then and_then (select_docs env P documents k (Some example) None True)
                (\<lambda>sampled_docs. and_then (rng_sample_range env num_docs k)
                   (\<lambda>replace_indices. lift_result (Inr (sampled_docs, replace_indices))))
         else
           let largest = (strategy P = ''best-case'')
           in and_then (select_docs env P documents k (Some example) target largest)
                (\<lambda>sampled_docs. and_then (select_docs env P [example] k None target (\<not> largest))
                   (\<lambda>to_replace. and_then (lift_result (index_all input_docs to_replace))
                      (\<lambda>replace_indices. lift_result (Inr (sampled_docs, replace_indices))))))"

definition replacement ::
  "('r, 's) env \<Rightarrow> perturber \<Rightarrow> string \<Rightarrow> rat \<Rightarrow> string option \<Rightarrow> string list
     \<Rightarrow> (string, 'r) run" where
  "replacement env P example perturbed_frac target documents =
     (let input_docs = split_docs env example (doc_sep_token P)
      in and_then (replacement_indices env P example perturbed_frac target documents)
           (\<lambda>(sampled_docs, replace_indices).
              lift_result
                (case replace_loop (zip replace_indices sampled_docs) input_docs of
                   Inl e \<Rightarrow> Inl e
                 | Inr docs \<Rightarrow> Inr (join_docs (doc_sep_token P) docs))))"

text \<open>
  \<^verbatim>\<open>Perturber.backtranslation\<close>. When \<^verbatim>\<open>k == num_docs\<close> the source binds
  \<^verbatim>\<open>sampled_docs\<close> to the list \<^verbatim>\<open>input_docs\<close> itself, which the final loop then
  overwrites while it iterates over it; \<open>None\<close> stands for this alias and \<open>Some ds\<close> for a list
  of its own. \<open>bt_step\<close> is the body of the loop and \<open>bt_loop\<close> the loop over
  \<^verbatim>\<open>zip(sampled_docs, back_translated_docs)\<close>, at position \<open>j\<close> of the first list.
\<close>

definition bt_step :: "string list \<Rightarrow> string \<Rightarrow> string list \<Rightarrow> error + string list" where
  "bt_step input_docs sampled translated =
     (case index_of input_docs sampled of
        None \<Rightarrow> Inl NotInList
      | Some i \<Rightarrow> Inr (input_docs[i := str_join '' '' (map strip translated)]))"

fun bt_loop :: "string list option \<Rightarrow> nat \<Rightarrow> string list list \<Rightarrow> string list \<Rightarrow> error + string list" where
  "bt_loop sampled_docs j [] input_docs = Inr input_docs"
| "bt_loop sampled_docs j (translated # rest) input_docs =
     (case (case sampled_docs of None \<Rightarrow> nth_opt input_docs j | Some ds \<Rightarrow> nth_opt ds j) of
        None \<Rightarrow> Inr input_docs
      | Some sampled \<Rightarrow>
          (case bt_step input_docs sampled translated of
             Inl e \<Rightarrow> Inl e
           | Inr docs \<Rightarrow> bt_loop sampled_docs (Suc j) rest docs))"

definition backtranslation ::
  "('r, 's) env \<Rightarrow> perturber \<Rightarrow> string \<Rightarrow> rat \<Rightarrow> string option \<Rightarrow> string list option
     \<Rightarrow> (string, 'r) run" where
  "backtranslation env P example perturbed_frac target documents =
     (let input_docs = split_docs env example (doc_sep_token P);
          num_docs = get_num_docs env example (doc_sep_token P);
          k = num_to_perturb perturbed_frac num_docs
      in and_then
           (if k = int num_docs then lift_result (Inr None)
            else if strategy P = ''random''
            then and_then (select_docs env P [example] k None None True)
                   (\<lambda>ds. lift_result (Inr (Some ds)))
            else and_then (select_docs env P [example] k None target (strategy P = ''worst-case''))
                   (\<lambda>ds. lift_result (Inr (Some ds))))
           (\<lambda>sampled.
              let sampled_docs = (case sampled of None \<Rightarrow> input_docs | Some ds \<Rightarrow> ds);
                  unflattened_sents = map (sent_tokenize env) sampled_docs
              in if \<not> aug_loaded P then lift_result (Inl AttributeError)
                 else
                   let back_translated_sents = augment env (concat unflattened_sents);
                       back_translated_docs =
                         unflatten env back_translated_sents (map length unflattened_sents)
                   in lift_result
                        (case bt_loop sampled 0 back_translated_docs input_docs of
                           Inl e \<Rightarrow> Inl e
                         | Inr docs \<Rightarrow> Inr (join_docs (doc_sep_token P) docs))))"

subsection \<open>Calling the Perturber\<close>

text \<open>
  \<^verbatim>\<open>self._perturbation_func(example=example, target=target, perturbed_frac=perturbed_frac,
  documents=documents)\<close>. The six perturbation methods take these keywords. Every other attribute
  that passes the check of \<^verbatim>\<open>__init__\<close> is either not callable or does not take them, and
  the call raises a \<^verbatim>\<open>TypeError\<close>; so does arithmetic on a \<^verbatim>\<open>perturbed_frac\<close> of
  \<^verbatim>\<open>None\<close> and the split of an example of \<^verbatim>\<open>None\<close>.
\<close>

definition perturbation_func ::
  "('r, 's) env \<Rightarrow> perturber \<Rightarrow> string option \<Rightarrow> string option \<Rightarrow> rat option \<Rightarrow> string list
     \<Rightarrow> (string, 'r) run" where
  "perturbation_func env P example target perturbed_frac documents =
     (case example of
        None \<Rightarrow> lift_result (Inl TypeError)
      | Some ex \<Rightarrow>
          if perturbation P = ''sorting''
          then sorting env P ex perturbed_frac target (Some documents)
          else
            (case perturbed_frac of
               None \<Rightarrow> lift_result (Inl TypeError)
             | Some f \<Rightarrow>
                 if perturbation P = ''backtranslation''
                 then backtranslation env P ex f target (Some documents)
                 else if perturbation P = ''duplication''
                 then duplication env P ex f target (Some documents)
                 else if perturbation P = ''addition''
                 then addition env P ex f target documents
                 else if perturbation P = ''deletion''
                 then deletion env P ex f target (Some documents)
                 else if perturbation P = ''replacement''
                 then replacement env P ex f target documents
                 else lift_result (Inl TypeError)))"

text \<open>The loop of \<^verbatim>\<open>__call__\<close> over \<^verbatim>\<open>zip_longest(inputs, targets)\<close>.\<close>

fun call_loop ::
  "('r, 's) env \<Rightarrow> perturber \<Rightarrow> rat option \<Rightarrow> string list \<Rightarrow> (string option \<times> string option) list
     \<Rightarrow> (string list, 'r) run" where
  "call_loop env P perturbed_frac documents [] = lift_result (Inr [])"
| "call_loop env P perturbed_frac documents ((example, target) # rest) =
     and_then (perturbation_func env P example target perturbed_frac documents)
       (\<lambda>perturbed_example.
          and_then (call_loop env P perturbed_frac documents rest)
            (\<lambda>perturbed_inputs. lift_result (Inr (perturbed_example # perturbed_inputs))))"

text \<open>
  \<^verbatim>\<open>Perturber.__call__(inputs, perturbed_frac=..., targets=..., documents=...)\<close>.
  \<^verbatim>\<open>not perturbed_frac\<close> holds for \<^verbatim>\<open>None\<close> and for zero.
\<close>

definition call ::
  "('r, 's) env \<Rightarrow> perturber \<Rightarrow> string list \<Rightarrow> rat option \<Rightarrow> string list option
     \<Rightarrow> string list option \<Rightarrow> (string list, 'r) run" where
  "call env P inputs perturbed_frac targets documents st =
     (if (case targets of None \<Rightarrow> False | Some ts \<Rightarrow> length inputs \<noteq> length ts)
      then (Inl TargetsLengthMismatch, st)
      else if perturbation P \<noteq> ''sorting'' \<and> (perturbed_frac = None \<or> perturbed_frac = Some 0)
      then (Inr inputs, warn FalseyPerturbedFrac st)
      else
        let st1 = (if documents \<noteq> None \<and> perturbation P \<notin> set [''addition'', ''replacement'']
                   then warn DocumentsIgnored st else st);
            targets' = (case targets of None \<Rightarrow> [] | Some ts \<Rightarrow> ts);
            pool = fromkeys (case documents of None \<Rightarrow> inputs | Some ds \<Rightarrow> inputs @ ds)
        in call_loop env P perturbed_frac pool (zip_longest inputs targets') st1)"

text \<open>Constructing a Perturber and calling it once.\<close>

definition construct_and_call ::
  "('r, 's) env \<Rightarrow> string \<Rightarrow> string \<Rightarrow> string \<Rightarrow> int option \<Rightarrow> string list \<Rightarrow> rat option
     \<Rightarrow> string list option \<Rightarrow> string list option \<Rightarrow> error + (error + string list) \<times> 'r pstate" where
  "construct_and_call env perturbation_arg doc_sep strategy_arg seed inputs perturbed_frac targets
       documents =
     (case Perturber_init env perturbation_arg doc_sep strategy_arg seed of
        Inl e \<Rightarrow> Inl e
      | Inr (P, st) \<Rightarrow> Inr (call env P inputs perturbed_frac targets documents st))"

subsection \<open>A concrete environment\<close>

text \<open>
  Modelled from the spec: \<^verbatim>\<open>util.split_docs\<close> is not among the source files. The
  specification describes an example as documents joined by the separator token with one space on
  each side, a document as a contiguous substring free of the separator, and splitting as the
  inverse of joining up to that padding. \<open>split_on\<close> is \<^verbatim>\<open>text.split(sep)\<close> and
  \<open>split_docs_spec\<close> removes the padding of every piece. It is used to run the model on concrete
  examples; the theorems below hold for every \<open>split_docs\<close>.
\<close>

function split_on :: "string \<Rightarrow> string \<Rightarrow> string \<Rightarrow> string list" where
  "split_on sep piece [] = [piece]"
| "split_on sep piece (c # cs) =
     (if sep \<noteq> [] \<and> prefix sep (c # cs)
      then piece # split_on sep [] (drop (length sep) (c # cs))
      else split_on sep (piece @ [c]) cs)"
  by pat_completeness auto
termination
  by (relation "measure (\<lambda>(sep, piece, text). length text)") auto

definition split_docs_spec :: "string \<Rightarrow> string \<Rightarrow> string list" where
  "split_docs_spec text sep = map strip (split_on sep [] text)"

text \<open>
  Modelled from the spec: \<^verbatim>\<open>util.unflatten\<close> is not among the source files. The
  specification says the translated sentences are reassembled per document: the flat list is cut
  into consecutive pieces of the given lengths.
\<close>

fun unflatten_spec :: "'a list \<Rightarrow> nat list \<Rightarrow> 'a list list" where
  "unflatten_spec xs [] = []"
| "unflatten_spec xs (n # ns) = take n xs # unflatten_spec (drop n xs) ns"

text \<open>
  A stand-in for \<^verbatim>\<open>torch.topk\<close> on a list of integer scores: the first \<open>k\<close> positions in
  the order of falling (\<open>largest\<close>) or rising score, equal scores in the order of the list.
\<close>

definition topk_list :: "int list \<Rightarrow> nat \<Rightarrow> bool \<Rightarrow> nat list" where
  "topk_list scores k largest =
     take k (map snd (sort_key (\<lambda>(v, i). if largest then - v else v)
                        (zip scores [0..<length scores])))"

text \<open>
  \<open>env0\<close> instantiates every parameter with a small executable stand-in: documents are split as
  the specification describes and counted by the length of the split; a document is one sentence;
  the translation appends an exclamation mark to every sentence; the random source is a counter
  that rotates the population by its value; the score of a document is 1 when its text equals the
  target (or occurs in the query) and 0 otherwise; \<open>__class__\<close> and \<open>__dict__\<close> stand for the
  inherited attributes.
\<close>

definition env0 :: "(nat, int list) env" where
  "env0 = \<lparr>split_docs = split_docs_spec,
           get_num_docs = (\<lambda>text sep. length (split_docs_spec text sep)),
           unflatten = unflatten_spec,
           sent_tokenize = (\<lambda>doc. [doc]),
           augment = map (\<lambda>sent. sent @ ''!''),
           seeded = (\<lambda>n. nat \<bar>n\<bar>),
           unseeded = 0,
           sample_docs = (\<lambda>r xs k. (take k (rotate r xs), Suc r)),
           sample_range = (\<lambda>r n k. (take k (rotate r [0..<n]), Suc r)),
           shuffle = (\<lambda>r xs. (rotate (Suc r) xs, Suc r)),
           scores_target = (\<lambda>t docs. map (\<lambda>doc. if doc = t then 1 else 0) docs),
           scores_query = (\<lambda>qs docs. map (\<lambda>doc. if doc \<in> set qs then 1 else 0) docs),
           topk = topk_list,
           object_attr = (\<lambda>name. name \<in> set [''__class__'', ''__dict__''])\<rparr>"

text \<open>
  \<open>env1\<close> is \<open>env0\<close> on another machine: the operating system seeds an unseeded random
  source differently, and the embedding model ranks nothing.
\<close>

definition env1 :: "(nat, int list) env" where
  "env1 = env0\<lparr>unseeded := 7, scores_target := (\<lambda>t docs. []), scores_query := (\<lambda>qs docs. []),
            topk := (\<lambda>s k largest. [])\<rparr>"




text \<open>The object \<^verbatim>\<open>Perturber(p, doc_sep_token="|", strategy=s)\<close> and a first state.\<close>

definition perturber0 :: "string \<Rightarrow> string \<Rightarrow> perturber" where
  "perturber0 p s = \<lparr>perturbation = p, doc_sep_token = ''|'', strategy = s,
      aug_loaded = (p = ''backtranslation''), embedder_loaded = (s \<noteq> ''random'')\<rparr>"

definition state0 :: "nat pstate" where
  "state0 = \<lparr>rng = 0, warned = []\<rparr>"

subsection \<open>Two environments that differ only where a seeded random run does not look\<close>

text \<open>
  Two environments agree on everything but the embedding model (\<open>scores_target\<close>,
  \<open>scores_query\<close>, \<open>topk\<close>) and the state the operating system gives an unseeded random
  source (\<open>unseeded\<close>).
\<close>

definition agree_but_embedder_and_entropy :: "('r, 's) env \<Rightarrow> ('r, 't) env \<Rightarrow> bool" where
  "agree_but_embedder_and_entropy e1 e2 =
     (split_docs e1 = split_docs e2 \<and> get_num_docs e1 = get_num_docs e2
      \<and> unflatten e1 = unflatten e2 \<and> sent_tokenize e1 = sent_tokenize e2
      \<and> augment e1 = augment e2 \<and> seeded e1 = seeded e2
      \<and> sample_docs e1 = sample_docs e2 \<and> sample_range e1 = sample_range e2
      \<and> shuffle e1 = shuffle e2 \<and> object_attr e1 = object_attr e2)"

subsection \<open>Vocabulary for the lookup of a document by its text\<close>

text \<open>
  \<open>first_position xs x i\<close>: \<open>i\<close> is the first position of \<open>xs\<close> that holds \<open>x\<close>, which is
  what \<^verbatim>\<open>xs.index(x)\<close> returns. \<open>later_copy xs j\<close>: position \<open>j\<close> holds a text that
  also occurs at an earlier position.
\<close>

definition first_position :: "'a list \<Rightarrow> 'a \<Rightarrow> nat \<Rightarrow> bool" where
  "first_position xs x i = (i < length xs \<and> xs ! i = x \<and> x \<notin> set (take i xs))"

definition later_copy :: "'a list \<Rightarrow> nat \<Rightarrow> bool" where
  "later_copy xs j = (j < length xs \<and> xs ! j \<in> set (take j xs))"

text \<open>
  \<open>back_translate env sampled_docs\<close> is the list \<^verbatim>\<open>back_translated_docs\<close> that
  \<^verbatim>\<open>backtranslation\<close> computes from \<^verbatim>\<open>sampled_docs\<close> before its loop, and
  \<open>overwritten docs steps\<close> is the list \<open>docs\<close> after the assignments
  \<^verbatim>\<open>docs[p] = " ".join(sent.strip() for sent in translated)\<close>, one for each pair
  \<open>(p, translated)\<close> of \<open>steps\<close>, in their order.
\<close>

definition back_translate :: "('r, 's) env \<Rightarrow> string list \<Rightarrow> string list list" where
  "back_translate env sampled_docs =
     unflatten env (augment env (concat (map (sent_tokenize env) sampled_docs)))
       (map length (map (sent_tokenize env) sampled_docs))"

definition overwritten :: "string list \<Rightarrow> (nat \<times> string list) list \<Rightarrow> string list" where
  "overwritten docs steps =
     foldl (\<lambda>cur (p, translated). cur[p := str_join '' '' (map strip translated)]) docs steps"

section \<open>Properties\<close>

text \<open>C4: for every example, every strategy and every state, \<^verbatim>\<open>deletion\<close> with
  \<^verbatim>\<open>perturbed_frac = 1.0\<close> returns the empty string, and leaves the state as it was.\<close>

theorem deletion_all_is_empty_string:
  "deletion env P example 1 target documents st = (Inr '''', st)"
  by (simp add: deletion_def num_to_perturb_def lift_result_def Let_def)

text \<open>C5: for every example, every strategy and every state, \<^verbatim>\<open>duplication\<close> with
  \<^verbatim>\<open>perturbed_frac = 1.0\<close> returns the join of a list of twice as many documents as the
  example splits into, and the first half of that list is the example's documents in their
  order.\<close>

theorem duplication_all_doubles:
  "duplication env P example 1 target documents st =
     (Inr (join_docs (doc_sep_token P)
        (split_docs env example (doc_sep_token P) @ split_docs env example (doc_sep_token P))), st)
   \<and> length (split_docs env example (doc_sep_token P) @ split_docs env example (doc_sep_token P))
       = 2 * length (split_docs env example (doc_sep_token P))
   \<and> take (length (split_docs env example (doc_sep_token P)))
        (split_docs env example (doc_sep_token P) @ split_docs env example (doc_sep_token P))
       = split_docs env example (doc_sep_token P)"
  by (simp add: duplication_def num_to_perturb_def lift_result_def and_then_def Let_def)

subsection \<open>Construction\<close>

lemma init_fails_iff:
  "(Perturber_init env name doc_sep strategy_arg seed = Inl UnexpectedPerturbation)
     = (name \<noteq> ''_perturbation'' \<and> name \<notin> set class_methods \<and> \<not> object_attr env name)"
  by (simp add: Perturber_init_def perturbation_func_found_def)

lemma init_accepts_the_six_perturbations:
  assumes "name \<in> set [''sorting'', ''duplication'', ''addition'', ''deletion'', ''replacement'',
             ''backtranslation'']"
  shows "\<exists>P st. Perturber_init env name doc_sep strategy_arg seed = Inr (P, st)"
  using assms by (auto simp add: Perturber_init_def perturbation_func_found_def class_methods_def)

text \<open>C1: a perturbation string that is not one of the six perturbation names should make the
  constructor fail. The string \<^verbatim>\<open>_select_docs\<close> is none of the six, and the constructor
  returns an object for it, whatever the environment, the separator, the strategy and the seed:
  the lookup \<^verbatim>\<open>getattr(self, perturbation, None)\<close> finds the helper method.\<close>

theorem init_accepts_helper_method_name:
  "Perturber_init env ''_select_docs'' doc_sep strategy_arg seed =
     Inr (\<lparr>perturbation = ''_select_docs'', doc_sep_token = doc_sep, strategy = strategy_arg,
            aug_loaded = False, embedder_loaded = (strategy_arg \<noteq> ''random'')\<rparr>,
          \<lparr>rng = (case seed of None \<Rightarrow> unseeded env | Some n \<Rightarrow> seeded env n), warned = []\<rparr>)"
  by (simp add: Perturber_init_def perturbation_func_found_def class_methods_def)

subsection \<open>The seeded random strategy\<close>

lemma agree_fields:
  assumes "agree_but_embedder_and_entropy e1 e2"
  shows "split_docs e1 = split_docs e2" "get_num_docs e1 = get_num_docs e2"
    "unflatten e1 = unflatten e2" "sent_tokenize e1 = sent_tokenize e2"
    "augment e1 = augment e2" "seeded e1 = seeded e2"
    "sample_docs e1 = sample_docs e2" "sample_range e1 = sample_range e2"
    "shuffle e1 = shuffle e2" "object_attr e1 = object_attr e2"
  using assms by (simp_all add: agree_but_embedder_and_entropy_def)

lemma candidate_docs_agree:
  assumes "agree_but_embedder_and_entropy e1 e2"
  shows "candidate_docs e1 = candidate_docs e2"
  unfolding candidate_docs_def agree_fields[OF assms] by (rule refl)

lemma rng_sample_docs_agree:
  assumes "agree_but_embedder_and_entropy e1 e2"
  shows "rng_sample_docs e1 = rng_sample_docs e2"
  unfolding rng_sample_docs_def agree_fields[OF assms] by (rule refl)

lemma rng_sample_range_agree:
  assumes "agree_but_embedder_and_entropy e1 e2"
  shows "rng_sample_range e1 = rng_sample_range e2"
  unfolding rng_sample_range_def agree_fields[OF assms] by (rule refl)

text \<open>Under the random strategy \<^verbatim>\<open>_select_docs\<close> returns before it reaches the embedder.\<close>

lemma select_docs_agree:
  assumes "agree_but_embedder_and_entropy e1 e2" and "strategy P = ''random''"
  shows "select_docs e1 P = select_docs e2 P"
proof (intro ext)
  fix ds k q t l st
  show "select_docs e1 P ds k q t l st = select_docs e2 P ds k q t l st"
    unfolding select_docs_def candidate_docs_agree[OF assms(1)] rng_sample_docs_agree[OF assms(1)]
    by (simp add: assms(2) Let_def)
qed

lemma deletion_agree:
  assumes "agree_but_embedder_and_entropy e1 e2" and "strategy P = ''random''"
  shows "deletion e1 P = deletion e2 P"
  unfolding deletion_def deletion_indices_def agree_fields[OF assms(1)]
    rng_sample_range_agree[OF assms(1)] select_docs_agree[OF assms]
  by (rule refl)

lemma duplication_agree:
  assumes "agree_but_embedder_and_entropy e1 e2" and "strategy P = ''random''"
  shows "duplication e1 P = duplication e2 P"
  unfolding duplication_def agree_fields[OF assms(1)]
    rng_sample_docs_agree[OF assms(1)] select_docs_agree[OF assms]
  by (rule refl)

lemma addition_agree:
  assumes "agree_but_embedder_and_entropy e1 e2" and "strategy P = ''random''"
  shows "addition e1 P = addition e2 P"
  unfolding addition_def agree_fields[OF assms(1)] select_docs_agree[OF assms]
  by (rule refl)

lemma sorting_agree:
  assumes "agree_but_embedder_and_entropy e1 e2" and "strategy P = ''random''"
  shows "sorting e1 P = sorting e2 P"
  unfolding sorting_def agree_fields[OF assms(1)] select_docs_agree[OF assms]
  by (rule refl)

lemma replacement_agree:
  assumes "agree_but_embedder_and_entropy e1 e2" and "strategy P = ''random''"
  shows "replacement e1 P = replacement e2 P"
  unfolding replacement_def replacement_indices_def agree_fields[OF assms(1)]
    rng_sample_range_agree[OF assms(1)] select_docs_agree[OF assms]
  by (rule refl)

lemma backtranslation_agree:
  assumes "agree_but_embedder_and_entropy e1 e2" and "strategy P = ''random''"
  shows "backtranslation e1 P = backtranslation e2 P"
  unfolding backtranslation_def agree_fields[OF assms(1)] select_docs_agree[OF assms]
  by (rule refl)

lemma perturbation_func_agree:
  assumes "agree_but_embedder_and_entropy e1 e2" and "strategy P = ''random''"
  shows "perturbation_func e1 P = perturbation_func e2 P"
  unfolding perturbation_func_def sorting_agree[OF assms] backtranslation_agree[OF assms]
    duplication_agree[OF assms] addition_agree[OF assms] deletion_agree[OF assms]
    replacement_agree[OF assms]
  by (rule refl)

lemma call_loop_agree:
  assumes "agree_but_embedder_and_entropy e1 e2" and "strategy P = ''random''"
  shows "call_loop e1 P f ds pairs = call_loop e2 P f ds pairs"
  by (induction pairs) (auto simp add: perturbation_func_agree[OF assms])

lemma call_agree:
  assumes "agree_but_embedder_and_entropy e1 e2" and "strategy P = ''random''"
  shows "call e1 P inputs f ts ds st = call e2 P inputs f ts ds st"
  unfolding call_def by (simp add: call_loop_agree[OF assms])

text \<open>C2: two runs under the strategy \<^verbatim>\<open>random\<close> with the same seed and the same inputs give
  the same result, the same warnings and the same final state of the random source, for every
  perturbation name: a run is the construction of a Perturber followed by one call, and the two
  runs may differ in what the operating system would give an unseeded random source and in the
  embedding model, which a seeded random run never consults.\<close>

theorem random_strategy_same_seed_same_output:
  assumes "agree_but_embedder_and_entropy e1 e2"
  shows "construct_and_call e1 p doc_sep ''random'' (Some seed) inputs perturbed_frac targets documents
       = construct_and_call e2 p doc_sep ''random'' (Some seed) inputs perturbed_frac targets documents"
proof -
  have "seeded e1 seed = seeded e2 seed"
    and "perturbation_func_found e1 p = perturbation_func_found e2 p"
    using assms by (simp_all add: agree_but_embedder_and_entropy_def perturbation_func_found_def)
  then show ?thesis
    using assms by (simp add: construct_and_call_def Perturber_init_def call_agree)
qed

text \<open>The two environments \<open>env0\<close> and \<open>env1\<close> agree in this sense, and a seeded random
  deletion gives the same result in both.\<close>

theorem random_strategy_same_seed_same_output_witness:
  "agree_but_embedder_and_entropy env0 env1
   \<and> construct_and_call env0 ''deletion'' ''|'' ''random'' (Some 1) [''A | B | C''] (Some (1/2))
        None None
     = construct_and_call env1 ''deletion'' ''|'' ''random'' (Some 1) [''A | B | C''] (Some (1/2))
        None None"
proof -
  have h: "agree_but_embedder_and_entropy env0 env1"
    by (simp add: agree_but_embedder_and_entropy_def env1_def)
  show ?thesis by (rule conjI[OF h random_strategy_same_seed_same_output[OF h]])
qed

subsection \<open>Too few candidates\<close>

text \<open>C6, as amended: when \<open>k\<close> exceeds the number of candidates (the pool split on the separator,
  without the documents of the query), \<^verbatim>\<open>_select_docs\<close> fails. The error is the one of the
  size check when the strategy is \<^verbatim>\<open>random\<close> or a non-empty query or target is given;
  under another strategy with neither, it is the error of the argument check, which runs first.\<close>

theorem select_docs_too_few_candidates:
  assumes "int (length (candidate_docs env P documents query)) < k"
  shows "fst (select_docs env P documents k query target largest st) =
           (if strategy P \<noteq> ''random'' \<and> \<not> truthy query \<and> \<not> truthy target
            then Inl MissingQueryOrTarget else Inl NotEnoughDocuments)"
  using assms by (simp add: select_docs_def Let_def)

text \<open>The example of the specification: a pool of three documents, a query that removes one,
  and \<open>k = 3\<close>.\<close>

theorem select_docs_too_few_candidates_witness:
  "int (length (candidate_docs env0 (perturber0 ''addition'' ''best-case'') [''A | B | C'']
      (Some ''B''))) < 3
   \<and> fst (select_docs env0 (perturber0 ''addition'' ''best-case'') [''A | B | C''] 3 (Some ''B'') None
          True state0) = Inl NotEnoughDocuments"
proof -
  have h: "int (length (candidate_docs env0 (perturber0 ''addition'' ''best-case'') [''A | B | C'']
      (Some ''B''))) < 3"
    by code_simp
  have "fst (select_docs env0 (perturber0 ''addition'' ''best-case'') [''A | B | C''] 3 (Some ''B'') None
          True state0) = Inl NotEnoughDocuments"
    using select_docs_too_few_candidates[OF h, of None True state0]
    by (simp add: truthy_def)
  with h show ?thesis by (rule conjI)
qed

text \<open>C6 as stated fails: under the strategy \<^verbatim>\<open>best-case\<close>, with no query and no target, a
  pool of two documents and \<open>k = 3\<close>, the call fails with the error of the argument check and
  not with the one of the size check.\<close>

theorem select_docs_argument_check_comes_first:
  "int (length (candidate_docs env0 (perturber0 ''duplication'' ''best-case'') [''A | B''] None)) < 3
   \<and> fst (select_docs env0 (perturber0 ''duplication'' ''best-case'') [''A | B''] 3 None None True
          state0) = Inl MissingQueryOrTarget
   \<and> Inl MissingQueryOrTarget \<noteq> (Inl NotEnoughDocuments :: error + string list)"
  by code_simp

subsection \<open>A falsey fraction\<close>

text \<open>C8, as amended: when the perturbation is not \<^verbatim>\<open>sorting\<close> and \<^verbatim>\<open>perturbed_frac\<close> is
  absent or zero, a call whose \<^verbatim>\<open>targets\<close> are absent or as many as the inputs emits the
  warning and returns the inputs unchanged, and nothing else changes; a call whose
  \<^verbatim>\<open>targets\<close> differ in number from the inputs fails with the length error, which is checked
  first.\<close>

theorem falsey_frac_returns_inputs:
  assumes "perturbation P \<noteq> ''sorting''"
    and "perturbed_frac = None \<or> perturbed_frac = Some 0"
  shows "call env P inputs perturbed_frac targets documents st =
           (if (case targets of None \<Rightarrow> False | Some ts \<Rightarrow> length inputs \<noteq> length ts)
            then (Inl TargetsLengthMismatch, st)
            else (Inr inputs, st\<lparr>warned := warned st @ [FalseyPerturbedFrac]\<rparr>))"
  using assms by (auto simp add: call_def warn_def)

theorem falsey_frac_returns_inputs_witness:
  "call env0 (perturber0 ''deletion'' ''random'') [''A | B | C''] None None None state0 =
     (Inr [''A | B | C''], state0\<lparr>warned := [FalseyPerturbedFrac]\<rparr>)"
  using falsey_frac_returns_inputs[of "perturber0 ''deletion'' ''random''" None env0
      "[''A | B | C'']" None None state0]
  by (simp add: perturber0_def state0_def)

text \<open>C8 as stated fails: with a falsey fraction and a perturbation other than
  \<^verbatim>\<open>sorting\<close>, a call whose \<^verbatim>\<open>targets\<close> is the empty list for one input raises.\<close>

theorem falsey_frac_with_mismatched_targets_raises:
  "call env0 (perturber0 ''deletion'' ''random'') [''A | B | C''] None (Some []) None state0 =
     (Inl TargetsLengthMismatch, state0)"
  by (simp add: call_def)

subsection \<open>Strategies other than the three named ones\<close>

lemma select_docs_other_strategy:
  assumes "s \<noteq> ''random''" and "s' \<noteq> ''random''"
  shows "select_docs env (P\<lparr>strategy := s\<rparr>) = select_docs env (P\<lparr>strategy := s'\<rparr>)"
  using assms
  by (intro ext)
     (simp add: select_docs_def candidate_docs_def Let_def cong: if_cong option.case_cong)

lemma sorting_other_strategy:
  assumes "s \<noteq> ''random''" and "s \<noteq> ''best-case''" and "s \<noteq> ''worst-case''"
  shows "sorting env (P\<lparr>strategy := s\<rparr>) = sorting env (P\<lparr>strategy := ''worst-case''\<rparr>)"
  using assms
  by (intro ext)
     (simp add: sorting_def Let_def select_docs_other_strategy[of s "''worst-case''"]
        cong: if_cong sum.case_cong option.case_cong)

lemma duplication_other_strategy:
  assumes "s \<noteq> ''random''" and "s \<noteq> ''best-case''" and "s \<noteq> ''worst-case''"
  shows "duplication env (P\<lparr>strategy := s\<rparr>) = duplication env (P\<lparr>strategy := ''worst-case''\<rparr>)"
  using assms
  by (intro ext)
     (simp add: duplication_def Let_def select_docs_other_strategy[of s "''worst-case''"]
        cong: if_cong sum.case_cong option.case_cong)

lemma addition_other_strategy:
  assumes "s \<noteq> ''random''" and "s \<noteq> ''best-case''" and "s \<noteq> ''worst-case''"
  shows "addition env (P\<lparr>strategy := s\<rparr>) = addition env (P\<lparr>strategy := ''worst-case''\<rparr>)"
  using assms
  by (intro ext)
     (simp add: addition_def Let_def select_docs_other_strategy[of s "''worst-case''"]
        cong: if_cong sum.case_cong option.case_cong)

lemma replacement_other_strategy:
  assumes "s \<noteq> ''random''" and "s \<noteq> ''best-case''" and "s \<noteq> ''worst-case''"
  shows "replacement env (P\<lparr>strategy := s\<rparr>) = replacement env (P\<lparr>strategy := ''worst-case''\<rparr>)"
  using assms
  by (intro ext)
     (simp add: replacement_def replacement_indices_def Let_def
        select_docs_other_strategy[of s "''worst-case''"]
        cong: if_cong sum.case_cong option.case_cong)

lemma deletion_other_strategy:
  assumes "s \<noteq> ''random''" and "s \<noteq> ''best-case''" and "s \<noteq> ''worst-case''"
  shows "deletion env (P\<lparr>strategy := s\<rparr>) = deletion env (P\<lparr>strategy := ''best-case''\<rparr>)"
  using assms
  by (intro ext)
     (simp add: deletion_def deletion_indices_def Let_def
        select_docs_other_strategy[of s "''best-case''"]
        cong: if_cong sum.case_cong option.case_cong)

lemma backtranslation_other_strategy:
  assumes "s \<noteq> ''random''" and "s \<noteq> ''best-case''" and "s \<noteq> ''worst-case''"
  shows "backtranslation env (P\<lparr>strategy := s\<rparr>) = backtranslation env (P\<lparr>strategy := ''best-case''\<rparr>)"
  using assms
  by (intro ext)
     (simp add: backtranslation_def Let_def select_docs_other_strategy[of s "''best-case''"]
        cong: if_cong sum.case_cong option.case_cong)

text \<open>C10: the constructor never fails because of the strategy: for every strategy string it
  fails exactly when the perturbation name is not found, and otherwise stores the string as it
  is. Every string other than \<^verbatim>\<open>random\<close> gets an embedder. A string that is none of
  \<^verbatim>\<open>random\<close>, \<^verbatim>\<open>best-case\<close> and \<^verbatim>\<open>worst-case\<close> makes every perturbation behave as
  under the named strategy for which its \<^verbatim>\<open>largest\<close> flag is false: as \<^verbatim>\<open>worst-case\<close>
  for sorting, duplication, addition and replacement, and as \<^verbatim>\<open>best-case\<close> for deletion and
  backtranslation.\<close>

theorem any_strategy_string_is_accepted:
  "Perturber_init env p doc_sep s seed =
     (if perturbation_func_found env p
      then Inr (\<lparr>perturbation = p, doc_sep_token = doc_sep, strategy = s,
                  aug_loaded = (p = ''backtranslation''), embedder_loaded = (s \<noteq> ''random'')\<rparr>,
                \<lparr>rng = (case seed of None \<Rightarrow> unseeded env | Some n \<Rightarrow> seeded env n), warned = []\<rparr>)
      else Inl UnexpectedPerturbation)
   \<and> (s \<noteq> ''random'' \<and> s \<noteq> ''best-case'' \<and> s \<noteq> ''worst-case'' \<longrightarrow>
        sorting env (P\<lparr>strategy := s\<rparr>) = sorting env (P\<lparr>strategy := ''worst-case''\<rparr>)
      \<and> duplication env (P\<lparr>strategy := s\<rparr>) = duplication env (P\<lparr>strategy := ''worst-case''\<rparr>)
      \<and> addition env (P\<lparr>strategy := s\<rparr>) = addition env (P\<lparr>strategy := ''worst-case''\<rparr>)
      \<and> replacement env (P\<lparr>strategy := s\<rparr>) = replacement env (P\<lparr>strategy := ''worst-case''\<rparr>)
      \<and> deletion env (P\<lparr>strategy := s\<rparr>) = deletion env (P\<lparr>strategy := ''best-case''\<rparr>)
      \<and> backtranslation env (P\<lparr>strategy := s\<rparr>)
          = backtranslation env (P\<lparr>strategy := ''best-case''\<rparr>))"
proof (intro conjI impI)
  show "Perturber_init env p doc_sep s seed =
     (if perturbation_func_found env p
      then Inr (\<lparr>perturbation = p, doc_sep_token = doc_sep, strategy = s,
                  aug_loaded = (p = ''backtranslation''), embedder_loaded = (s \<noteq> ''random'')\<rparr>,
                \<lparr>rng = (case seed of None \<Rightarrow> unseeded env | Some n \<Rightarrow> seeded env n), warned = []\<rparr>)
      else Inl UnexpectedPerturbation)"
    by (simp add: Perturber_init_def)
qed (simp_all add: sorting_other_strategy duplication_other_strategy addition_other_strategy
      replacement_other_strategy deletion_other_strategy backtranslation_other_strategy)

text \<open>The strategy string \<^verbatim>\<open>best\<close> is none of the three: the constructor accepts it, and a
  deletion under it removes what a deletion under \<^verbatim>\<open>best-case\<close> removes.\<close>

theorem any_strategy_string_is_accepted_witness:
  "Perturber_init env0 ''deletion'' ''|'' ''best'' (Some 1) = Inr (perturber0 ''deletion'' ''best'', state0\<lparr>rng := 1\<rparr>)
   \<and> deletion env0 (perturber0 ''deletion'' ''best'') ''A | B | C'' (1/2) (Some ''A'') None state0
     = deletion env0 (perturber0 ''deletion'' ''best-case'') ''A | B | C'' (1/2) (Some ''A'') None state0
   \<and> deletion env0 (perturber0 ''deletion'' ''best-case'') ''A | B | C'' (1/2) (Some ''A'') None state0
     = (Inr ''A'', state0)"
proof -
  have found: "perturbation_func_found env0 ''deletion''"
    by (simp add: perturbation_func_found_def class_methods_def)
  have names: "''best'' \<noteq> ''random'' \<and> ''best'' \<noteq> ''best-case'' \<and> ''best'' \<noteq> ''worst-case''"
    by simp
  have upd: "perturber0 ''deletion'' ''best'' = (perturber0 ''deletion'' ''best-case'')\<lparr>strategy := ''best''\<rparr>"
    "perturber0 ''deletion'' ''best-case'' = (perturber0 ''deletion'' ''best-case'')\<lparr>strategy := ''best-case''\<rparr>"
    by (simp_all add: perturber0_def)
  note inst = any_strategy_string_is_accepted[of env0 "''deletion''" "''|''" "''best''" "Some 1"
      "perturber0 ''deletion'' ''best-case''"]
  have 1: "Perturber_init env0 ''deletion'' ''|'' ''best'' (Some 1)
      = Inr (perturber0 ''deletion'' ''best'', state0\<lparr>rng := 1\<rparr>)"
    using inst found by (simp add: perturber0_def state0_def env0_def)
  have 2: "deletion env0 (perturber0 ''deletion'' ''best'')
      = deletion env0 (perturber0 ''deletion'' ''best-case'')"
    using inst names upd by metis
  have 3: "deletion env0 (perturber0 ''deletion'' ''best-case'') ''A | B | C'' (1/2) (Some ''A'') None state0
     = (Inr ''A'', state0)"
    by code_simp
  show ?thesis using 1 2 3 by simp
qed

subsection \<open>Selection by rank and lookup by content\<close>





lemma index_of_first:
  "index_of xs x = Some i \<Longrightarrow> i < length xs \<and> xs ! i = x \<and> (\<forall>j<i. xs ! j \<noteq> x)"
proof (induction xs arbitrary: i)
  case Nil
  then show ?case by simp
next
  case (Cons y ys)
  show ?case
  proof (cases "y = x")
    case True
    with Cons.prems show ?thesis by simp
  next
    case False
    with Cons.prems obtain i' where i': "index_of ys x = Some i'" "i = Suc i'"
      by auto
    from Cons.IH[OF i'(1)] False i'(2) show ?thesis
      by (auto simp add: nth_Cons split: nat.splits)
  qed
qed










lemma length_overwritten: "length (overwritten docs steps) = length docs"
  unfolding overwritten_def by (induction steps arbitrary: docs) auto

lemma overwritten_Cons:
  "overwritten docs ((p, t) # steps) = overwritten (docs[p := str_join '' '' (map strip t)]) steps"
  by (simp add: overwritten_def)

lemma index_of_Some_iff:
  "index_of xs x = Some i \<longleftrightarrow> i < length xs \<and> xs ! i = x \<and> (\<forall>j<i. xs ! j \<noteq> x)"
proof
  assume "index_of xs x = Some i"
  then show "i < length xs \<and> xs ! i = x \<and> (\<forall>j<i. xs ! j \<noteq> x)" by (rule index_of_first)
next
  assume "i < length xs \<and> xs ! i = x \<and> (\<forall>j<i. xs ! j \<noteq> x)"
  then show "index_of xs x = Some i"
  proof (induction xs arbitrary: i)
    case Nil
    then show ?case by simp
  next
    case (Cons y ys)
    show ?case
    proof (cases i)
      case 0
      with Cons.prems show ?thesis by simp
    next
      case (Suc i')
      with Cons.prems have "y \<noteq> x" by auto
      moreover from Cons.prems Suc have "i' < length ys \<and> ys ! i' = x \<and> (\<forall>j<i'. ys ! j \<noteq> x)"
        by auto
      ultimately show ?thesis using Cons.IH[of i'] Suc by simp
    qed
  qed
qed

lemma bt_loop_trace:
  assumes "bt_loop src j ts docs = Inr out"
  shows "\<exists>ps. length ps = min (length ts) ((case src of None \<Rightarrow> length docs | Some ds \<Rightarrow> length ds) - j)
          \<and> out = overwritten docs (zip ps ts)
          \<and> (\<forall>n<length ps.
                index_of (overwritten docs (take n (zip ps ts)))
                  (case src of None \<Rightarrow> overwritten docs (take n (zip ps ts)) ! (j + n)
                             | Some ds \<Rightarrow> ds ! (j + n))
                = Some (ps ! n))"
  using assms
proof (induction ts arbitrary: j docs)
  case Nil
  then show ?case by (simp add: overwritten_def)
next
  case (Cons t ts)
  let ?len = "\<lambda>docs. case src of None \<Rightarrow> length docs | Some ds \<Rightarrow> length (ds :: string list)"
  let ?at = "\<lambda>docs k. case src of None \<Rightarrow> (docs :: string list) ! k | Some ds \<Rightarrow> ds ! k"
  show ?case
  proof (cases "j < ?len docs")
    case False
    then have "(case src of None \<Rightarrow> nth_opt docs j | Some ds \<Rightarrow> nth_opt ds j) = None"
      by (auto simp add: nth_opt_def split: option.splits)
    with Cons.prems have "out = docs" by simp
    with False show ?thesis
      by (intro exI[of _ "[]"]) (auto simp add: overwritten_def split: option.splits)
  next
    case True
    then have at: "(case src of None \<Rightarrow> nth_opt docs j | Some ds \<Rightarrow> nth_opt ds j) = Some (?at docs j)"
      by (auto simp add: nth_opt_def split: option.splits)
    with Cons.prems obtain i where i: "index_of docs (?at docs j) = Some i"
      and rest: "bt_loop src (Suc j) ts (docs[i := str_join '' '' (map strip t)]) = Inr out"
      by (auto simp add: bt_step_def split: option.splits sum.splits)
    let ?docs1 = "docs[i := str_join '' '' (map strip t)]"
    from Cons.IH[OF rest] obtain ps where
      len: "length ps = min (length ts) (?len ?docs1 - Suc j)"
      and out: "out = overwritten ?docs1 (zip ps ts)"
      and tr: "\<forall>n<length ps. index_of (overwritten ?docs1 (take n (zip ps ts)))
                  (?at (overwritten ?docs1 (take n (zip ps ts))) (Suc j + n)) = Some (ps ! n)"
      by blast
    have len1: "?len ?docs1 = ?len docs" by (simp split: option.splits)
    have "length (i # ps) = min (length (t # ts)) (?len docs - j)"
      using len len1 True by simp
    moreover have "out = overwritten docs (zip (i # ps) (t # ts))"
      using out by (simp add: overwritten_Cons)
    moreover have "\<forall>n<length (i # ps).
        index_of (overwritten docs (take n (zip (i # ps) (t # ts))))
          (?at (overwritten docs (take n (zip (i # ps) (t # ts)))) (j + n)) = Some ((i # ps) ! n)"
    proof (intro allI impI)
      fix n assume n: "n < length (i # ps)"
      show "index_of (overwritten docs (take n (zip (i # ps) (t # ts))))
          (?at (overwritten docs (take n (zip (i # ps) (t # ts)))) (j + n)) = Some ((i # ps) ! n)"
      proof (cases n)
        case 0
        with i show ?thesis by (simp add: overwritten_def cong: option.case_cong)
      next
        case (Suc m)
        with n have "m < length ps" by simp
        with tr have "index_of (overwritten ?docs1 (take m (zip ps ts)))
                  (?at (overwritten ?docs1 (take m (zip ps ts))) (Suc j + m)) = Some (ps ! m)"
          by blast
        with Suc show ?thesis by (simp add: overwritten_Cons cong: option.case_cong)
      qed
    qed
    ultimately show ?thesis by blast
  qed
qed

lemma index_of_first_position: "index_of xs x = Some i \<longleftrightarrow> first_position xs x i"
proof -
  have "i < length xs \<Longrightarrow> (\<forall>j<i. xs ! j \<noteq> x) \<longleftrightarrow> x \<notin> set (take i xs)"
    by (auto simp add: in_set_conv_nth)
  then show ?thesis
    unfolding index_of_Some_iff first_position_def by blast
qed

lemma those_map_list_all2:
  "those (map f ds) = Some is \<Longrightarrow> list_all2 (\<lambda>d i. f d = Some i) ds is"
proof (induction ds arbitrary: "is")
  case Nil
  then show ?case by simp
next
  case (Cons d ds)
  then show ?case by (auto split: option.splits)
qed

lemma index_all_first_position:
  assumes "index_all xs ds = Inr is"
  shows "list_all2 (first_position xs) ds is"
proof -
  from assms have "those (map (index_of xs) ds) = Some is"
    by (auto simp add: index_all_def split: option.splits)
  from those_map_list_all2[OF this] show ?thesis
    by (simp add: index_of_first_position[abs_def])
qed

lemma first_position_not_later_copy:
  assumes "list_all2 (first_position xs) ds is"
  shows "\<forall>j\<in>set is. \<not> later_copy xs j"
proof
  fix j assume "j \<in> set is"
  then obtain n where n: "n < length is" "is ! n = j" by (auto simp add: in_set_conv_nth)
  with assms have "first_position xs (ds ! n) j"
    by (auto simp add: list_all2_conv_all_nth)
  then show "\<not> later_copy xs j"
    by (auto simp add: first_position_def later_copy_def)
qed

lemma replace_loop_unchanged:
  assumes "replace_loop ps docs = Inr out"
  shows "length out = length docs \<and> (\<forall>j. j \<notin> fst ` set ps \<longrightarrow> out ! j = docs ! j)"
  using assms
proof (induction ps arbitrary: docs)
  case Nil
  then show ?case by simp
next
  case (Cons p ps)
  obtain i d where p: "p = (i, d)" by (cases p)
  from Cons.prems p have "i < length docs" and rest: "replace_loop ps (docs[i := strip d]) = Inr out"
    by (auto split: if_splits)
  from Cons.IH[OF rest] p show ?case by auto
qed

lemma deletion_lookup:
  assumes "strategy P \<noteq> ''random''"
    and "deletion env P example f target documents st = (Inr out, st')"
  shows "if num_to_perturb f (get_num_docs env example (doc_sep_token P))
             = int (get_num_docs env example (doc_sep_token P))
         then out = []
         else \<exists>sampled to_delete.
                select_docs env P [example]
                  (num_to_perturb f (get_num_docs env example (doc_sep_token P))) None target
                  (strategy P = ''worst-case'') st = (Inr sampled, st')
              \<and> list_all2 (first_position (split_docs env example (doc_sep_token P))) sampled to_delete
              \<and> (\<forall>j\<in>set to_delete. \<not> later_copy (split_docs env example (doc_sep_token P)) j)
              \<and> out = join_docs (doc_sep_token P)
                       (map snd (filter (\<lambda>(j, doc). j \<notin> set to_delete)
                          (enumerate 0 (split_docs env example (doc_sep_token P)))))"
proof (cases "num_to_perturb f (get_num_docs env example (doc_sep_token P))
             = int (get_num_docs env example (doc_sep_token P))")
  case True
  with assms(2) show ?thesis by (simp add: deletion_def lift_result_def Let_def)
next
  case False
  let ?docs = "split_docs env example (doc_sep_token P)"
  let ?k = "num_to_perturb f (get_num_docs env example (doc_sep_token P))"
  from assms False obtain sampled to_delete where
    sel: "select_docs env P [example] ?k None target (strategy P = ''worst-case'') st = (Inr sampled, st')"
    and idx: "index_all ?docs sampled = Inr to_delete"
    and out: "out = join_docs (doc_sep_token P)
                (map snd (filter (\<lambda>(j, doc). j \<notin> set to_delete) (enumerate 0 ?docs)))"
    by (auto simp add: deletion_def deletion_indices_def and_then_def lift_result_def Let_def
        split: prod.splits sum.splits)
  from index_all_first_position[OF idx] have fp: "list_all2 (first_position ?docs) sampled to_delete" .
  from first_position_not_later_copy[OF fp] sel fp out False show ?thesis by auto
qed

lemma replacement_lookup:
  assumes "strategy P \<noteq> ''random''"
    and "replacement env P example f target pool st = (Inr out, st')"
  shows "\<exists>sampled to_replace replace_idx docs' st1.
            select_docs env P pool (num_to_perturb f (get_num_docs env example (doc_sep_token P)))
              (Some example) target (strategy P = ''best-case'') st = (Inr sampled, st1)
          \<and> select_docs env P [example] (num_to_perturb f (get_num_docs env example (doc_sep_token P)))
              None target (strategy P \<noteq> ''best-case'') st1 = (Inr to_replace, st')
          \<and> list_all2 (first_position (split_docs env example (doc_sep_token P))) to_replace replace_idx
          \<and> replace_loop (zip replace_idx sampled) (split_docs env example (doc_sep_token P)) = Inr docs'
          \<and> out = join_docs (doc_sep_token P) docs'
          \<and> length docs' = length (split_docs env example (doc_sep_token P))
          \<and> (\<forall>j. later_copy (split_docs env example (doc_sep_token P)) j
                 \<longrightarrow> docs' ! j = split_docs env example (doc_sep_token P) ! j)"
proof -
  let ?docs = "split_docs env example (doc_sep_token P)"
  let ?k = "num_to_perturb f (get_num_docs env example (doc_sep_token P))"
  from assms obtain sampled to_replace replace_idx docs' st1 where
    s1: "select_docs env P pool ?k (Some example) target (strategy P = ''best-case'') st = (Inr sampled, st1)"
    and s2: "select_docs env P [example] ?k None target (strategy P \<noteq> ''best-case'') st1 = (Inr to_replace, st')"
    and idx: "index_all ?docs to_replace = Inr replace_idx"
    and loop: "replace_loop (zip replace_idx sampled) ?docs = Inr docs'"
    and out: "out = join_docs (doc_sep_token P) docs'"
    by (auto simp add: replacement_def replacement_indices_def and_then_def lift_result_def Let_def
        split: prod.splits sum.splits)
  from index_all_first_position[OF idx] have fp: "list_all2 (first_position ?docs) to_replace replace_idx" .
  from replace_loop_unchanged[OF loop] have len: "length docs' = length ?docs"
    and same: "\<forall>j. j \<notin> fst ` set (zip replace_idx sampled) \<longrightarrow> docs' ! j = ?docs ! j"
    by auto
  have "\<forall>j. later_copy ?docs j \<longrightarrow> docs' ! j = ?docs ! j"
  proof (intro allI impI)
    fix j assume "later_copy ?docs j"
    with first_position_not_later_copy[OF fp] have "j \<notin> set replace_idx" by auto
    then have "j \<notin> fst ` set (zip replace_idx sampled)"
      by (auto dest: set_zip_leftD)
    with same show "docs' ! j = ?docs ! j" by blast
  qed
  with s1 s2 fp loop out len show ?thesis by blast
qed

lemma backtranslation_lookup:
  assumes "strategy P \<noteq> ''random''"
    and "backtranslation env P example f target documents st = (Inr out, st')"
  shows "\<exists>sampled ps.
            (if num_to_perturb f (get_num_docs env example (doc_sep_token P))
                  = int (get_num_docs env example (doc_sep_token P))
             then sampled = None
             else \<exists>ds. sampled = Some ds
                    \<and> select_docs env P [example]
                        (num_to_perturb f (get_num_docs env example (doc_sep_token P))) None target
                        (strategy P = ''worst-case'') st = (Inr ds, st'))
          \<and> length ps
              = min (length (back_translate env
                       (case sampled of None \<Rightarrow> split_docs env example (doc_sep_token P) | Some ds \<Rightarrow> ds)))
                    (length (case sampled of None \<Rightarrow> split_docs env example (doc_sep_token P) | Some ds \<Rightarrow> ds))
          \<and> out = join_docs (doc_sep_token P)
                    (overwritten (split_docs env example (doc_sep_token P))
                       (zip ps (back_translate env
                          (case sampled of None \<Rightarrow> split_docs env example (doc_sep_token P) | Some ds \<Rightarrow> ds))))
          \<and> (\<forall>n<length ps.
                first_position
                  (overwritten (split_docs env example (doc_sep_token P))
                     (take n (zip ps (back_translate env
                        (case sampled of None \<Rightarrow> split_docs env example (doc_sep_token P) | Some ds \<Rightarrow> ds)))))
                  (case sampled of
                     None \<Rightarrow> overwritten (split_docs env example (doc_sep_token P))
                               (take n (zip ps (back_translate env (split_docs env example (doc_sep_token P))))) ! n
                   | Some ds \<Rightarrow> ds ! n)
                  (ps ! n))"
proof -
  let ?docs = "split_docs env example (doc_sep_token P)"
  let ?k = "num_to_perturb f (get_num_docs env example (doc_sep_token P))"
  let ?n = "get_num_docs env example (doc_sep_token P)"
  let ?list = "\<lambda>sampled. case sampled of None \<Rightarrow> ?docs | Some ds \<Rightarrow> ds"
  from assms obtain sampled docs' where
    sel: "if ?k = int ?n then sampled = None
          else \<exists>ds. sampled = Some ds
                 \<and> select_docs env P [example] ?k None target (strategy P = ''worst-case'') st = (Inr ds, st')"
    and loop: "bt_loop sampled 0 (back_translate env (?list sampled)) ?docs = Inr docs'"
    and out: "out = join_docs (doc_sep_token P) docs'"
    by (auto simp add: backtranslation_def back_translate_def and_then_def lift_result_def Let_def
        split: prod.splits sum.splits if_splits)
  from bt_loop_trace[OF loop] obtain ps where
    len: "length ps = min (length (back_translate env (?list sampled)))
            ((case sampled of None \<Rightarrow> length ?docs | Some ds \<Rightarrow> length ds) - 0)"
    and ov: "docs' = overwritten ?docs (zip ps (back_translate env (?list sampled)))"
    and tr: "\<forall>n<length ps.
                index_of (overwritten ?docs (take n (zip ps (back_translate env (?list sampled)))))
                  (case sampled of
                     None \<Rightarrow> overwritten ?docs (take n (zip ps (back_translate env (?list sampled)))) ! (0 + n)
                   | Some ds \<Rightarrow> ds ! (0 + n))
                = Some (ps ! n)"
    by blast
  have len': "length ps = min (length (back_translate env (?list sampled))) (length (?list sampled))"
    using len by (simp split: option.splits)
  have tr': "\<forall>n<length ps.
                first_position
                  (overwritten ?docs (take n (zip ps (back_translate env (?list sampled)))))
                  (case sampled of
                     None \<Rightarrow> overwritten ?docs (take n (zip ps (back_translate env ?docs))) ! n
                   | Some ds \<Rightarrow> ds ! n)
                  (ps ! n)"
    using tr by (auto simp add: index_of_first_position split: option.splits)
  from sel len' out ov tr' show ?thesis by blast
qed

lemma bt_loop_two_copies:
  assumes "p < q" and "q < length current" and "current ! p = d" and "current ! q = d"
    and "\<forall>i<q. i \<noteq> p \<longrightarrow> current ! i \<noteq> d"
    and "str_join '' '' (map strip t1) \<noteq> d"
  shows "bt_loop (Some [d, d]) 0 [t1, t2] current =
           Inr (current[p := str_join '' '' (map strip t1), q := str_join '' '' (map strip t2)])"
proof -
  have 1: "index_of current d = Some p"
    using assms by (simp add: index_of_Some_iff)
  have 2: "index_of (current[p := str_join '' '' (map strip t1)]) d = Some q"
    using assms by (auto simp add: index_of_Some_iff nth_list_update)
  show ?thesis
    using 1 2 by (simp add: bt_step_def nth_opt_def)
qed

text \<open>C9, as amended: under a strategy other than \<^verbatim>\<open>random\<close>, the three perturbations
  find the position of every selected document as the first position that holds its text.
  \<^item> \<^verbatim>\<open>deletion\<close>, when it returns: if \<open>k\<close> equals the number of documents the result is
    the empty string and nothing is looked up. Otherwise the result is the join of the documents
    whose position is not in \<open>to_delete\<close>, where \<open>to_delete\<close> holds, for each document
    that \<^verbatim>\<open>_select_docs\<close> returned, its first position in the unmodified example; so no
    position that holds a later copy of a text is deleted.
  \<^item> \<^verbatim>\<open>replacement\<close>, when it returns: \<open>replace_idx\<close> holds, for each document that
    the second call of \<^verbatim>\<open>_select_docs\<close> returned, its first position in the unmodified
    example; the result is the join of a list as long as the example, and every position that
    holds a later copy of a text keeps its document.
  \<^item> \<^verbatim>\<open>backtranslation\<close>, when it returns: the result is the join of the example's
    documents after one assignment per iteration of the loop, and the position assigned in
    iteration \<open>n\<close> is the first position that holds the \<open>n\<close>-th sampled document in the
    list as the earlier \<open>n\<close> assignments left it (when \<open>k\<close> equals the number of documents,
    the sampled documents are read from that same list). So when a text is sampled twice, sits at
    \<open>p\<close> and next at \<open>q\<close>, and its first translation differs from it, the loop overwrites
    both \<open>p\<close> and \<open>q\<close>.
  \<^item> \<^verbatim>\<open>deletion\<close> may remove fewer than \<open>k\<close> documents: from \<open>A | A | B\<close> with
    \<open>k = 2\<close> it removes one.\<close>

theorem content_lookup_targets_first_occurrence:
  assumes "strategy P \<noteq> ''random''"
  shows "(deletion env P example f target documents st = (Inr out_d, st_d) \<longrightarrow>
      (if (num_to_perturb f (get_num_docs env example (doc_sep_token P))) = int (get_num_docs env example (doc_sep_token P))
       then out_d = []
       else \<exists>sampled to_delete.
              select_docs env P [example] (num_to_perturb f (get_num_docs env example (doc_sep_token P))) None target
                (strategy P = ''worst-case'') st = (Inr sampled, st_d)
            \<and> list_all2 (first_position (split_docs env example (doc_sep_token P))) sampled to_delete
            \<and> (\<forall>j\<in>set to_delete. \<not> later_copy (split_docs env example (doc_sep_token P)) j)
            \<and> out_d = join_docs (doc_sep_token P)
                  (map snd (filter (\<lambda>(j, doc). j \<notin> set to_delete)
                     (enumerate 0 (split_docs env example (doc_sep_token P)))))))
   \<and> (replacement env P example f target pool st = (Inr out_r, st_r) \<longrightarrow>
      (\<exists>sampled to_replace replace_idx docs' st1.
          select_docs env P pool (num_to_perturb f (get_num_docs env example (doc_sep_token P)))
            (Some example) target (strategy P = ''best-case'') st = (Inr sampled, st1)
        \<and> select_docs env P [example] (num_to_perturb f (get_num_docs env example (doc_sep_token P)))
            None target (strategy P \<noteq> ''best-case'') st1 = (Inr to_replace, st_r)
        \<and> list_all2 (first_position (split_docs env example (doc_sep_token P))) to_replace replace_idx
        \<and> replace_loop (zip replace_idx sampled) (split_docs env example (doc_sep_token P)) = Inr docs'
        \<and> out_r = join_docs (doc_sep_token P) docs'
        \<and> length docs' = length (split_docs env example (doc_sep_token P))
        \<and> (\<forall>j. later_copy (split_docs env example (doc_sep_token P)) j
               \<longrightarrow> docs' ! j = (split_docs env example (doc_sep_token P)) ! j)))
   \<and> (backtranslation env P example f target documents st = (Inr out_b, st_b) \<longrightarrow>
      (\<exists>sampled ps.
          (if (num_to_perturb f (get_num_docs env example (doc_sep_token P))) = int (get_num_docs env example (doc_sep_token P))
           then sampled = None
           else \<exists>ds. sampled = Some ds
                  \<and> select_docs env P [example] (num_to_perturb f (get_num_docs env example (doc_sep_token P))) None target
                      (strategy P = ''worst-case'') st = (Inr ds, st_b))
        \<and> length ps
            = min (length (back_translate env (case sampled of None \<Rightarrow> (split_docs env example (doc_sep_token P)) | Some ds \<Rightarrow> ds)))
                  (length (case sampled of None \<Rightarrow> (split_docs env example (doc_sep_token P)) | Some ds \<Rightarrow> ds))
        \<and> out_b = join_docs (doc_sep_token P)
                  (overwritten (split_docs env example (doc_sep_token P))
                     (zip ps (back_translate env (case sampled of None \<Rightarrow> (split_docs env example (doc_sep_token P)) | Some ds \<Rightarrow> ds))))
        \<and> (\<forall>n<length ps.
              first_position
                (overwritten (split_docs env example (doc_sep_token P))
                   (take n (zip ps (back_translate env (case sampled of None \<Rightarrow> (split_docs env example (doc_sep_token P)) | Some ds \<Rightarrow> ds)))))
                (case sampled of
                   None \<Rightarrow> overwritten (split_docs env example (doc_sep_token P))
                             (take n (zip ps (back_translate env (split_docs env example (doc_sep_token P))))) ! n
                 | Some ds \<Rightarrow> ds ! n)
                (ps ! n))))
   \<and> (p < q \<and> q < length current \<and> current ! p = d \<and> current ! q = d
        \<and> (\<forall>i<q. i \<noteq> p \<longrightarrow> current ! i \<noteq> d)
        \<and> str_join '' '' (map strip t1) \<noteq> d
      \<longrightarrow> bt_loop (Some [d, d]) 0 [t1, t2] current =
          Inr (current[p := str_join '' '' (map strip t1), q := str_join '' '' (map strip t2)]))
   \<and> num_to_perturb (1/2) (get_num_docs env0 ''A | A | B'' ''|'') = 2
   \<and> deletion env0 (perturber0 ''deletion'' ''worst-case'') ''A | A | B'' (1/2) (Some ''A'') None state0
       = (Inr ''A | B'', state0)"
proof (intro conjI impI)
  assume "deletion env P example f target documents st = (Inr out_d, st_d)"
  from deletion_lookup[OF assms this]
  show "(if (num_to_perturb f (get_num_docs env example (doc_sep_token P))) = int (get_num_docs env example (doc_sep_token P))
       then out_d = []
       else \<exists>sampled to_delete.
              select_docs env P [example] (num_to_perturb f (get_num_docs env example (doc_sep_token P))) None target
                (strategy P = ''worst-case'') st = (Inr sampled, st_d)
            \<and> list_all2 (first_position (split_docs env example (doc_sep_token P))) sampled to_delete
            \<and> (\<forall>j\<in>set to_delete. \<not> later_copy (split_docs env example (doc_sep_token P)) j)
            \<and> out_d = join_docs (doc_sep_token P)
                  (map snd (filter (\<lambda>(j, doc). j \<notin> set to_delete)
                     (enumerate 0 (split_docs env example (doc_sep_token P))))))" .
next
  assume "replacement env P example f target pool st = (Inr out_r, st_r)"
  from replacement_lookup[OF assms this]
  show "(\<exists>sampled to_replace replace_idx docs' st1.
          select_docs env P pool (num_to_perturb f (get_num_docs env example (doc_sep_token P)))
            (Some example) target (strategy P = ''best-case'') st = (Inr sampled, st1)
        \<and> select_docs env P [example] (num_to_perturb f (get_num_docs env example (doc_sep_token P)))
            None target (strategy P \<noteq> ''best-case'') st1 = (Inr to_replace, st_r)
        \<and> list_all2 (first_position (split_docs env example (doc_sep_token P))) to_replace replace_idx
        \<and> replace_loop (zip replace_idx sampled) (split_docs env example (doc_sep_token P)) = Inr docs'
        \<and> out_r = join_docs (doc_sep_token P) docs'
        \<and> length docs' = length (split_docs env example (doc_sep_token P))
        \<and> (\<forall>j. later_copy (split_docs env example (doc_sep_token P)) j
               \<longrightarrow> docs' ! j = (split_docs env example (doc_sep_token P)) ! j))" .
next
  assume "backtranslation env P example f target documents st = (Inr out_b, st_b)"
  from backtranslation_lookup[OF assms this]
  show "(\<exists>sampled ps.
          (if (num_to_perturb f (get_num_docs env example (doc_sep_token P))) = int (get_num_docs env example (doc_sep_token P))
           then sampled = None
           else \<exists>ds. sampled = Some ds
                  \<and> select_docs env P [example] (num_to_perturb f (get_num_docs env example (doc_sep_token P))) None target
                      (strategy P = ''worst-case'') st = (Inr ds, st_b))
        \<and> length ps
            = min (length (back_translate env (case sampled of None \<Rightarrow> (split_docs env example (doc_sep_token P)) | Some ds \<Rightarrow> ds)))
                  (length (case sampled of None \<Rightarrow> (split_docs env example (doc_sep_token P)) | Some ds \<Rightarrow> ds))
        \<and> out_b = join_docs (doc_sep_token P)
                  (overwritten (split_docs env example (doc_sep_token P))
                     (zip ps (back_translate env (case sampled of None \<Rightarrow> (split_docs env example (doc_sep_token P)) | Some ds \<Rightarrow> ds))))
        \<and> (\<forall>n<length ps.
              first_position
                (overwritten (split_docs env example (doc_sep_token P))
                   (take n (zip ps (back_translate env (case sampled of None \<Rightarrow> (split_docs env example (doc_sep_token P)) | Some ds \<Rightarrow> ds)))))
                (case sampled of
                   None \<Rightarrow> overwritten (split_docs env example (doc_sep_token P))
                             (take n (zip ps (back_translate env (split_docs env example (doc_sep_token P))))) ! n
                 | Some ds \<Rightarrow> ds ! n)
                (ps ! n)))" .
next
  assume "p < q \<and> q < length current \<and> current ! p = d \<and> current ! q = d
        \<and> (\<forall>i<q. i \<noteq> p \<longrightarrow> current ! i \<noteq> d)
        \<and> str_join '' '' (map strip t1) \<noteq> d"
  then show "bt_loop (Some [d, d]) 0 [t1, t2] current =
          Inr (current[p := str_join '' '' (map strip t1), q := str_join '' '' (map strip t2)])"
    by (intro bt_loop_two_copies) blast+
next
  show "num_to_perturb (1/2) (get_num_docs env0 ''A | A | B'' ''|'') = 2"
    by code_simp
next
  show "deletion env0 (perturber0 ''deletion'' ''worst-case'') ''A | A | B'' (1/2) (Some ''A'') None state0
       = (Inr ''A | B'', state0)"
    by code_simp
qed

text \<open>Three runs on \<open>A | A | B\<close>: the worst-case deletion and the worst-case
  backtranslation for the target \<open>A\<close> with \<open>k = 2\<close>, and the best-case replacement for the
  target \<open>C\<close> over the pool \<open>A | A | B\<close>, \<open>C | D | A\<close>; and the loop on the documents
  \<open>A\<close>, \<open>A\<close>, \<open>B\<close> with \<open>A\<close> sampled twice.\<close>

theorem content_lookup_targets_first_occurrence_witness:
  "deletion env0 (perturber0 ''deletion'' ''worst-case'') ''A | A | B'' (1/2) (Some ''A'') None state0 = (Inr ''A | B'', state0)
   \<and> (if (num_to_perturb (1/2) (get_num_docs env0 ''A | A | B'' (doc_sep_token (perturber0 ''deletion'' ''worst-case'')))) = int (get_num_docs env0 ''A | A | B'' (doc_sep_token (perturber0 ''deletion'' ''worst-case'')))
     then ''A | B'' = []
     else \<exists>sampled to_delete.
            select_docs env0 (perturber0 ''deletion'' ''worst-case'') [''A | A | B''] (num_to_perturb (1/2) (get_num_docs env0 ''A | A | B'' (doc_sep_token (perturber0 ''deletion'' ''worst-case'')))) None (Some ''A'')
              (strategy (perturber0 ''deletion'' ''worst-case'') = ''worst-case'') state0 = (Inr sampled, state0)
          \<and> list_all2 (first_position (split_docs env0 ''A | A | B'' (doc_sep_token (perturber0 ''deletion'' ''worst-case'')))) sampled to_delete
          \<and> (\<forall>j\<in>set to_delete. \<not> later_copy (split_docs env0 ''A | A | B'' (doc_sep_token (perturber0 ''deletion'' ''worst-case''))) j)
          \<and> ''A | B'' = join_docs (doc_sep_token (perturber0 ''deletion'' ''worst-case''))
                (map snd (filter (\<lambda>(j, doc). j \<notin> set to_delete)
                   (enumerate 0 (split_docs env0 ''A | A | B'' (doc_sep_token (perturber0 ''deletion'' ''worst-case'')))))))
   \<and> replacement env0 (perturber0 ''replacement'' ''best-case'') ''A | A | B'' (1/2) (Some ''C'') [''A | A | B'', ''C | D | A''] state0 = (Inr ''D | A | B'', state0)
   \<and> (\<exists>sampled to_replace replace_idx docs' st1.
        select_docs env0 (perturber0 ''replacement'' ''best-case'') [''A | A | B'', ''C | D | A''] (num_to_perturb (1/2) (get_num_docs env0 ''A | A | B'' (doc_sep_token (perturber0 ''replacement'' ''best-case''))))
          (Some ''A | A | B'') (Some ''C'') (strategy (perturber0 ''replacement'' ''best-case'') = ''best-case'') state0 = (Inr sampled, st1)
      \<and> select_docs env0 (perturber0 ''replacement'' ''best-case'') [''A | A | B''] (num_to_perturb (1/2) (get_num_docs env0 ''A | A | B'' (doc_sep_token (perturber0 ''replacement'' ''best-case''))))
          None (Some ''C'') (strategy (perturber0 ''replacement'' ''best-case'') \<noteq> ''best-case'') st1 = (Inr to_replace, state0)
      \<and> list_all2 (first_position (split_docs env0 ''A | A | B'' (doc_sep_token (perturber0 ''replacement'' ''best-case'')))) to_replace replace_idx
      \<and> replace_loop (zip replace_idx sampled) (split_docs env0 ''A | A | B'' (doc_sep_token (perturber0 ''replacement'' ''best-case''))) = Inr docs'
      \<and> ''D | A | B'' = join_docs (doc_sep_token (perturber0 ''replacement'' ''best-case'')) docs'
      \<and> length docs' = length (split_docs env0 ''A | A | B'' (doc_sep_token (perturber0 ''replacement'' ''best-case'')))
      \<and> (\<forall>j. later_copy (split_docs env0 ''A | A | B'' (doc_sep_token (perturber0 ''replacement'' ''best-case''))) j
             \<longrightarrow> docs' ! j = (split_docs env0 ''A | A | B'' (doc_sep_token (perturber0 ''replacement'' ''best-case''))) ! j))
   \<and> backtranslation env0 (perturber0 ''backtranslation'' ''worst-case'') ''A | A | B'' (1/2) (Some ''A'') None state0 = (Inr ''A! | A! | B'', state0)
   \<and> (\<exists>sampled ps.
        (if (num_to_perturb (1/2) (get_num_docs env0 ''A | A | B'' (doc_sep_token (perturber0 ''backtranslation'' ''worst-case'')))) = int (get_num_docs env0 ''A | A | B'' (doc_sep_token (perturber0 ''backtranslation'' ''worst-case'')))
         then sampled = None
         else \<exists>ds. sampled = Some ds
                \<and> select_docs env0 (perturber0 ''backtranslation'' ''worst-case'') [''A | A | B''] (num_to_perturb (1/2) (get_num_docs env0 ''A | A | B'' (doc_sep_token (perturber0 ''backtranslation'' ''worst-case'')))) None (Some ''A'')
                    (strategy (perturber0 ''backtranslation'' ''worst-case'') = ''worst-case'') state0 = (Inr ds, state0))
      \<and> length ps
          = min (length (back_translate env0 (case sampled of None \<Rightarrow> (split_docs env0 ''A | A | B'' (doc_sep_token (perturber0 ''backtranslation'' ''worst-case''))) | Some ds \<Rightarrow> ds)))
                (length (case sampled of None \<Rightarrow> (split_docs env0 ''A | A | B'' (doc_sep_token (perturber0 ''backtranslation'' ''worst-case''))) | Some ds \<Rightarrow> ds))
      \<and> ''A! | A! | B'' = join_docs (doc_sep_token (perturber0 ''backtranslation'' ''worst-case''))
                (overwritten (split_docs env0 ''A | A | B'' (doc_sep_token (perturber0 ''backtranslation'' ''worst-case'')))
                   (zip ps (back_translate env0 (case sampled of None \<Rightarrow> (split_docs env0 ''A | A | B'' (doc_sep_token (perturber0 ''backtranslation'' ''worst-case''))) | Some ds \<Rightarrow> ds))))
      \<and> (\<forall>n<length ps.
            first_position
              (overwritten (split_docs env0 ''A | A | B'' (doc_sep_token (perturber0 ''backtranslation'' ''worst-case'')))
                 (take n (zip ps (back_translate env0 (case sampled of None \<Rightarrow> (split_docs env0 ''A | A | B'' (doc_sep_token (perturber0 ''backtranslation'' ''worst-case''))) | Some ds \<Rightarrow> ds)))))
              (case sampled of
                 None \<Rightarrow> overwritten (split_docs env0 ''A | A | B'' (doc_sep_token (perturber0 ''backtranslation'' ''worst-case'')))
                           (take n (zip ps (back_translate env0 (split_docs env0 ''A | A | B'' (doc_sep_token (perturber0 ''backtranslation'' ''worst-case'')))))) ! n
               | Some ds \<Rightarrow> ds ! n)
              (ps ! n)))
   \<and> bt_loop (Some [''A'', ''A'']) 0 [[''A!''], [''A!'']] [''A'', ''A'', ''B''] =
          Inr ([''A'', ''A'', ''B''][(0::nat) := str_join '' '' (map strip [''A!'']), (1::nat) := str_join '' '' (map strip [''A!''])])"
proof -
  have sd: "strategy (perturber0 ''deletion'' ''worst-case'') \<noteq> ''random''"
    and sr: "strategy (perturber0 ''replacement'' ''best-case'') \<noteq> ''random''"
    and sb: "strategy (perturber0 ''backtranslation'' ''worst-case'') \<noteq> ''random''"
    by (simp_all add: perturber0_def)
  have run_d: "deletion env0 (perturber0 ''deletion'' ''worst-case'') ''A | A | B'' (1/2) (Some ''A'') None state0 = (Inr ''A | B'', state0)"
    by code_simp
  have run_r: "replacement env0 (perturber0 ''replacement'' ''best-case'') ''A | A | B'' (1/2) (Some ''C'') [''A | A | B'', ''C | D | A''] state0 = (Inr ''D | A | B'', state0)"
    by code_simp
  have run_b: "backtranslation env0 (perturber0 ''backtranslation'' ''worst-case'') ''A | A | B'' (1/2) (Some ''A'') None state0 = (Inr ''A! | A! | B'', state0)"
    by code_simp
  have two: "(0::nat) < (1::nat) \<and> (1::nat) < length [''A'', ''A'', ''B''] \<and> [''A'', ''A'', ''B''] ! (0::nat) = ''A'' \<and> [''A'', ''A'', ''B''] ! (1::nat) = ''A''
        \<and> (\<forall>i<(1::nat). i \<noteq> (0::nat) \<longrightarrow> [''A'', ''A'', ''B''] ! i \<noteq> ''A'')
        \<and> str_join '' '' (map strip [''A!'']) \<noteq> ''A''"
    by (simp add: strip_def is_space_def whitespace_def)
  note d = content_lookup_targets_first_occurrence[OF sd, THEN conjunct1, THEN mp, OF run_d]
  note r = content_lookup_targets_first_occurrence[OF sr, THEN conjunct2, THEN conjunct1, THEN mp,
      OF run_r]
  note b = content_lookup_targets_first_occurrence[OF sb, THEN conjunct2, THEN conjunct2,
      THEN conjunct1, THEN mp, OF run_b]
  note t = content_lookup_targets_first_occurrence[OF sd, THEN conjunct2, THEN conjunct2,
      THEN conjunct2, THEN conjunct1, THEN mp, OF two]
  show ?thesis
    by (intro conjI) (rule run_d d run_r r run_b b t)+
qed


text \<open>C9 as stated fails for \<^verbatim>\<open>backtranslation\<close>: on \<open>A | A | B\<close> with \<open>k = 2\<close>, the
  worst-case strategy and the target \<open>A\<close>, both copies of \<open>A\<close> are selected; the first lookup
  overwrites position 0, and the second lookup then finds position 1, the second occurrence.\<close>

theorem backtranslation_reaches_second_occurrence:
  "split_docs env0 ''A | A | B'' ''|'' = [''A'', ''A'', ''B'']
   \<and> num_to_perturb (1/2) (get_num_docs env0 ''A | A | B'' ''|'') = 2
   \<and> backtranslation env0 (perturber0 ''backtranslation'' ''worst-case'') ''A | A | B'' (1/2) (Some ''A'')
        None state0 = (Inr ''A! | A! | B'', state0)"
  by code_simp

subsection \<open>The number of perturbed documents\<close>

lemma num_to_perturb_boundary_fractions:
  "num_to_perturb (33/100) 3 = 1 \<and> num_to_perturb (34/100) 3 = 2
   \<and> num_to_perturb (1/2) 3 = 2 \<and> num_to_perturb 1 3 = 3"
  by code_simp


text \<open>C3: the perturbation should affect exactly \<open>k = ceil(perturbed_frac * n)\<close> documents. A
  Perturber constructed for \<^verbatim>\<open>deletion\<close> under \<^verbatim>\<open>worst-case\<close> and called on the one
  example \<open>X | Y | X\<close> with the target \<open>X\<close> and \<^verbatim>\<open>perturbed_frac = 0.5\<close> computes
  \<open>k = 2\<close> and removes one document: both selected documents have the text \<open>X\<close>, and both
  lookups give position 0.\<close>

theorem deletion_with_repeated_text_removes_fewer:
  "num_to_perturb (1/2) (get_num_docs env0 ''X | Y | X'' ''|'') = 2
   \<and> split_docs env0 ''X | Y | X'' ''|'' = [''X'', ''Y'', ''X'']
   \<and> construct_and_call env0 ''deletion'' ''|'' ''worst-case'' (Some 0) [''X | Y | X''] (Some (1/2))
        (Some [''X'']) None = Inr (Inr [''Y | X''], state0)"
  by code_simp

end
